theory Spec2Isabelle
  imports Main
begin

section \<open>Errors\<close>

text \<open>
  Go error values as the build pipeline of \<^verbatim>\<open>starport/services/chain/build.go\<close>
  sees them. \<open>ExitError\<close> is \<^verbatim>\<open>*exec.ExitError\<close>, \<open>ErrMultipleMainPackagesFound\<close> the
  sentinel of package goanalysis, \<open>Wrap\<close> the result of \<^verbatim>\<open>errors.Wrap(err, msg)\<close> and
  \<open>CannotBuildAppError\<close> the struct \<^verbatim>\<open>&CannotBuildAppError{err}\<close>. \<open>TargetParseError\<close> is
  the failure of the target parser and \<open>OtherError\<close> any other leaf error. A Go
  \<^verbatim>\<open>error\<close> that may be nil is an \<open>error option\<close>.
\<close>

datatype error =
    ExitError string
  | ErrMultipleMainPackagesFound
  | TargetParseError
  | OtherError string
  | Wrap string error
  | CannotBuildAppError error

text \<open>\<^verbatim>\<open>errors.As(err, &exitErr)\<close> with \<^verbatim>\<open>exitErr *exec.ExitError\<close>: some error of the
  chain of \<open>err\<close> is an exit error.\<close>

fun chain_has_ExitError :: "error \<Rightarrow> bool" where
  "chain_has_ExitError (ExitError s) = True"
| "chain_has_ExitError ErrMultipleMainPackagesFound = False"
| "chain_has_ExitError TargetParseError = False"
| "chain_has_ExitError (OtherError s) = False"
| "chain_has_ExitError (Wrap m e) = chain_has_ExitError e"
| "chain_has_ExitError (CannotBuildAppError e) = chain_has_ExitError e"

definition errors_As_ExitError :: "error option \<Rightarrow> bool" where
  "errors_As_ExitError err = (case err of None \<Rightarrow> False | Some e \<Rightarrow> chain_has_ExitError e)"

text \<open>\<^verbatim>\<open>errors.Is(err, goanalysis.ErrMultipleMainPackagesFound)\<close>: some error of the chain
  is the sentinel.\<close>

fun chain_has_ErrMultiple :: "error \<Rightarrow> bool" where
  "chain_has_ErrMultiple (ExitError s) = False"
| "chain_has_ErrMultiple ErrMultipleMainPackagesFound = True"
| "chain_has_ErrMultiple TargetParseError = False"
| "chain_has_ErrMultiple (OtherError s) = False"
| "chain_has_ErrMultiple (Wrap m e) = chain_has_ErrMultiple e"
| "chain_has_ErrMultiple (CannotBuildAppError e) = chain_has_ErrMultiple e"

definition errors_Is_ErrMultiple :: "error option \<Rightarrow> bool" where
  "errors_Is_ErrMultiple err = (case err of None \<Rightarrow> False | Some e \<Rightarrow> chain_has_ErrMultiple e)"

section \<open>Data\<close>

text \<open>The fields of \<^verbatim>\<open>config.Build\<close> that the pipeline reads.\<close>

record config =
  Build_LDFlags :: "string list"
  Build_Main :: string

text \<open>The fields of \<^verbatim>\<open>*Chain\<close> that the pipeline reads; \<open>app_D\<close> is the value of
  \<^verbatim>\<open>c.app.D()\<close>.\<close>

record chain =
  app_Name :: string
  app_Path :: string
  app_ImportPath :: string
  app_D :: string
  sourceVersion_tag :: string
  sourceVersion_hash :: string

definition releaseDir :: string where
  "releaseDir = ''release''"

definition checksumTxt :: string where
  "checksumTxt = ''checksum.txt''"

section \<open>Calls to collaborators\<close>

text \<open>
  Every call that leaves build.go is recorded, in order, in a trace. The temporary
  directory that \<^verbatim>\<open>os.MkdirTemp\<close> returned is part of its event (\<open>None\<close> when it failed).
\<close>

datatype event =
    EvSetup
  | EvGenerateAll
  | EvConfig
  | EvID
  | EvBinary
  | EvModTidy string
  | EvModVerify string
  | EvDiscoverOneMain string
  | EvBuildPath string string string "string list" "(string \<times> string) list"
  | EvParseTarget string
  | EvRemoveAll string
  | EvMkdirAll string
  | EvMkdirTemp "string option"
  | EvTar string
  | EvCreate string
  | EvCopy string string
  | EvClose string
  | EvChecksumSum string string

type_synonym trace = "event list"

text \<open>
  The collaborators are parameters of the model. The constants and pure functions of the
  Go library and of package gocmd come first; then the operations with effects, whose
  answer may depend on everything that happened before (the trace of the calls so far).
  The two progress messages that \<open>preBuild\<close> prints are not recorded.
\<close>

record env =
  strings_Title :: "string \<Rightarrow> string"
  filepath_Join :: "string \<Rightarrow> string \<Rightarrow> string"
  runtime_GOOS :: string
  runtime_GOARCH :: string
  gocmd_FlagMod :: string
  gocmd_FlagModValueReadOnly :: string
  gocmd_FlagLdflags :: string
  gocmd_Ldflags :: "string list \<Rightarrow> string"
  gocmd_EnvGOOS :: string
  gocmd_EnvGOARCH :: string
  gocmd_BuildTarget :: "string \<Rightarrow> string \<Rightarrow> string"
  gocmd_ParseTarget :: "string \<Rightarrow> error + string \<times> string"
  chain_setup :: "trace \<Rightarrow> error option"
  generateAll :: "trace \<Rightarrow> error option"
  Config :: "trace \<Rightarrow> error + config"
  ID :: "trace \<Rightarrow> error + string"
  Binary :: "trace \<Rightarrow> string \<times> error option"
  gocmd_ModTidy :: "trace \<Rightarrow> string \<Rightarrow> error option"
  gocmd_ModVerify :: "trace \<Rightarrow> string \<Rightarrow> error option"
  goanalysis_DiscoverOneMain :: "trace \<Rightarrow> string \<Rightarrow> string \<times> error option"
  gocmd_BuildPath ::
    "trace \<Rightarrow> string \<Rightarrow> string \<Rightarrow> string \<Rightarrow> string list \<Rightarrow> (string \<times> string) list \<Rightarrow> error option"
  os_RemoveAll :: "trace \<Rightarrow> string \<Rightarrow> error option"
  os_MkdirAll :: "trace \<Rightarrow> string \<Rightarrow> error option"
  os_MkdirTemp :: "trace \<Rightarrow> error + string"
  archive_Tar :: "trace \<Rightarrow> string \<Rightarrow> error option"
  os_Create :: "trace \<Rightarrow> string \<Rightarrow> error option"
  io_Copy :: "trace \<Rightarrow> string \<Rightarrow> string \<Rightarrow> error option"
  checksum_Sum :: "trace \<Rightarrow> string \<Rightarrow> string \<Rightarrow> error option"

text \<open>A call asks the collaborator with the trace so far and records the event.\<close>

definition call :: "event \<Rightarrow> (trace \<Rightarrow> 'a) \<Rightarrow> trace \<Rightarrow> 'a \<times> trace" where
  "call ev f tr = (f tr, tr @ [ev])"

section \<open>The target parser of package gocmd\<close>

text \<open>\<^verbatim>\<open>strings.Split(s, sep)\<close> for a one-character separator.\<close>

fun split_on :: "char \<Rightarrow> string \<Rightarrow> string list" where
  "split_on c [] = [[]]"
| "split_on c (x # xs) =
     (if x = c then [] # split_on c xs
      else (case split_on c xs of [] \<Rightarrow> [[x]] | y # ys \<Rightarrow> (x # y) # ys))"

text \<open>Modelled from the spec: \<^verbatim>\<open>gocmd.ParseTarget\<close>, which is not part of build.go. The
  spec's parser splits a token \<^verbatim>\<open><os>:<arch>\<close> on the separator and fails with
  \<open>TargetParseError\<close> unless there are exactly two parts.\<close>

definition ParseTarget_spec :: "string \<Rightarrow> error + string \<times> string" where
  "ParseTarget_spec t =
     (case split_on (CHR '':'') t of
        [goos, goarch] \<Rightarrow> Inr (goos, goarch)
      | _ \<Rightarrow> Inl TargetParseError)"

text \<open>Modelled from the spec: \<^verbatim>\<open>gocmd.BuildTarget\<close>, which is not part of build.go. The
  spec's target token is \<^verbatim>\<open><os>:<arch>\<close>.\<close>

definition BuildTarget_spec :: "string \<Rightarrow> string \<Rightarrow> string" where
  "BuildTarget_spec goos goarch = goos @ '':'' @ goarch"

section \<open>preBuild\<close>

text \<open>The linker flags of \<open>preBuild\<close>: the flags of the configuration, then the five
  \<^verbatim>\<open>-X\<close> flags that \<^verbatim>\<open>append\<close> adds, in the order of the source.\<close>

definition injectedFlags :: "env \<Rightarrow> chain \<Rightarrow> string \<Rightarrow> string list" where
  "injectedFlags E c chainID =
     [''-X github.com/cosmos/cosmos-sdk/version.Name='' @ strings_Title E (app_Name c),
      ''-X github.com/cosmos/cosmos-sdk/version.AppName='' @ app_Name c @ ''d'',
      ''-X github.com/cosmos/cosmos-sdk/version.Version='' @ sourceVersion_tag c,
      ''-X github.com/cosmos/cosmos-sdk/version.Commit='' @ sourceVersion_hash c,
      ''-X '' @ app_ImportPath c @ ''/cmd/'' @ app_D c @ ''/cmd.ChainID='' @ chainID]"

definition assembleFlags :: "env \<Rightarrow> chain \<Rightarrow> config \<Rightarrow> string \<Rightarrow> string list" where
  "assembleFlags E c conf chainID =
     (let ldFlags = Build_LDFlags conf @ injectedFlags E c chainID
      in [gocmd_FlagMod E, gocmd_FlagModValueReadOnly E,
          gocmd_FlagLdflags E, gocmd_Ldflags E ldFlags])"

definition preBuild :: "env \<Rightarrow> chain \<Rightarrow> trace \<Rightarrow> (error + string list) \<times> trace" where
  "preBuild E c tr =
     (case call EvConfig (Config E) tr of
        (Inl e, tr1) \<Rightarrow> (Inl e, tr1)
      | (Inr conf, tr1) \<Rightarrow>
     (case call EvID (ID E) tr1 of
        (Inl e, tr2) \<Rightarrow> (Inl e, tr2)
      | (Inr chainID, tr2) \<Rightarrow>
     (let buildFlags = assembleFlags E c conf chainID in
      case call (EvModTidy (app_Path c)) (\<lambda>h. gocmd_ModTidy E h (app_Path c)) tr2 of
        (Some e, tr3) \<Rightarrow> (Inl e, tr3)
      | (None, tr3) \<Rightarrow>
     (case call (EvModVerify (app_Path c)) (\<lambda>h. gocmd_ModVerify E h (app_Path c)) tr3 of
        (Some e, tr4) \<Rightarrow> (Inl e, tr4)
      | (None, tr4) \<Rightarrow> (Inr buildFlags, tr4)))))"

section \<open>discoverMain\<close>

definition discoverMain :: "env \<Rightarrow> chain \<Rightarrow> string \<Rightarrow> trace \<Rightarrow> (string \<times> error option) \<times> trace" where
  "discoverMain E c path tr =
     (case call EvConfig (Config E) tr of
        (Inl e, tr1) \<Rightarrow> (([], Some e), tr1)
      | (Inr conf, tr1) \<Rightarrow>
          if Build_Main conf \<noteq> [] then ((filepath_Join E (app_Path c) (Build_Main conf), None), tr1)
          else
            (case call (EvDiscoverOneMain path) (\<lambda>h. goanalysis_DiscoverOneMain E h path) tr1 of
               ((path', err), tr2) \<Rightarrow>
                 if err = Some ErrMultipleMainPackagesFound
                 then (([], Some (Wrap ''specify the path to your chain's main package in your config.yml>build.main''
                                   ErrMultipleMainPackagesFound)), tr2)
                 else ((path', err), tr2)))"

section \<open>build and Build\<close>

text \<open>The steps of \<open>build\<close>, before its deferred function runs.\<close>

definition build_steps :: "env \<Rightarrow> chain \<Rightarrow> string \<Rightarrow> trace \<Rightarrow> error option \<times> trace" where
  "build_steps E c output tr =
     (case call EvGenerateAll (generateAll E) tr of
        (Some e, tr1) \<Rightarrow> (Some e, tr1)
      | (None, tr1) \<Rightarrow>
     (case preBuild E c tr1 of
        (Inl e, tr2) \<Rightarrow> (Some e, tr2)
      | (Inr buildFlags, tr2) \<Rightarrow>
     (case call EvBinary (Binary E) tr2 of
        ((binary, Some e), tr3) \<Rightarrow> (Some e, tr3)
      | ((binary, None), tr3) \<Rightarrow>
     (case discoverMain E c (app_Path c) tr3 of
        ((path, Some e), tr4) \<Rightarrow> (Some e, tr4)
      | ((path, None), tr4) \<Rightarrow>
          call (EvBuildPath output binary path buildFlags [])
            (\<lambda>h. gocmd_BuildPath E h output binary path buildFlags []) tr4))))"

text \<open>The deferred function of \<open>build\<close>: it replaces the error that is being returned.\<close>

definition reclassify :: "error option \<Rightarrow> error option" where
  "reclassify err =
     (if errors_As_ExitError err \<or> errors_Is_ErrMultiple err
      then (case err of None \<Rightarrow> None | Some e \<Rightarrow> Some (CannotBuildAppError e))
      else err)"

definition build :: "env \<Rightarrow> chain \<Rightarrow> string \<Rightarrow> trace \<Rightarrow> error option \<times> trace" where
  "build E c output tr =
     (case build_steps E c output tr of (err, tr') \<Rightarrow> (reclassify err, tr'))"

definition Build :: "env \<Rightarrow> chain \<Rightarrow> string \<Rightarrow> (string \<times> error option) \<times> trace" where
  "Build E c output =
     (case call EvSetup (chain_setup E) [] of
        (Some e, tr1) \<Rightarrow> (([], Some e), tr1)
      | (None, tr1) \<Rightarrow>
     (case build E c output tr1 of
        (Some e, tr2) \<Rightarrow> (([], Some e), tr2)
      | (None, tr2) \<Rightarrow> call EvBinary (Binary E) tr2))"

section \<open>BuildRelease\<close>

text \<open>The calls that \<^verbatim>\<open>defer\<close> registers in BuildRelease. They run when the function
  returns, the last registered first, and their results are dropped.\<close>

datatype deferred = DeferRemoveAll string | DeferClose string

fun deferred_event :: "deferred \<Rightarrow> event" where
  "deferred_event (DeferRemoveAll out) = EvRemoveAll out"
| "deferred_event (DeferClose tarPath) = EvClose tarPath"

fun run_deferred :: "deferred list \<Rightarrow> trace \<Rightarrow> trace" where
  "run_deferred [] tr = tr"
| "run_deferred (d # ds) tr = run_deferred ds (tr @ [deferred_event d])"

text \<open>Lines 83 to 100: setup, flags, binary name and main package.\<close>

definition release_setup ::
  "env \<Rightarrow> chain \<Rightarrow> trace \<Rightarrow> (error + string list \<times> string \<times> string) \<times> trace" where
  "release_setup E c tr =
     (case call EvSetup (chain_setup E) tr of
        (Some e, tr1) \<Rightarrow> (Inl e, tr1)
      | (None, tr1) \<Rightarrow>
     (case preBuild E c tr1 of
        (Inl e, tr2) \<Rightarrow> (Inl e, tr2)
      | (Inr buildFlags, tr2) \<Rightarrow>
     (case call EvBinary (Binary E) tr2 of
        ((binary, Some e), tr3) \<Rightarrow> (Inl e, tr3)
      | ((binary, None), tr3) \<Rightarrow>
     (case discoverMain E c (app_Path c) tr3 of
        ((mainPath, Some e), tr4) \<Rightarrow> (Inl e, tr4)
      | ((mainPath, None), tr4) \<Rightarrow> (Inr (buildFlags, binary, mainPath), tr4)))))"

text \<open>Lines 102 to 113: the release directory.\<close>

definition release_dir :: "env \<Rightarrow> chain \<Rightarrow> string \<Rightarrow> trace \<Rightarrow> (error + string) \<times> trace" where
  "release_dir E c output tr =
     (if output = [] then
        (let releasePath = filepath_Join E (app_Path c) releaseDir in
         case call (EvRemoveAll releasePath) (\<lambda>h. os_RemoveAll E h releasePath) tr of
           (Some e, tr1) \<Rightarrow> (Inl e, tr1)
         | (None, tr1) \<Rightarrow>
        (case call (EvMkdirAll releasePath) (\<lambda>h. os_MkdirAll E h releasePath) tr1 of
           (Some e, tr2) \<Rightarrow> (Inl e, tr2)
         | (None, tr2) \<Rightarrow> (Inr releasePath, tr2)))
      else
        (case call (EvMkdirAll output) (\<lambda>h. os_MkdirAll E h output) tr of
           (Some e, tr2) \<Rightarrow> (Inl e, tr2)
         | (None, tr2) \<Rightarrow> (Inr output, tr2)))"

definition tarName :: "string \<Rightarrow> string \<Rightarrow> string \<Rightarrow> string" where
  "tarName prefix goos goarch = prefix @ ''_'' @ goos @ ''_'' @ goarch @ ''.tar.gz''"

text \<open>Lines 116 to 156: the body of the loop, for one target. It returns the error (if
  any) with which BuildRelease returns, the deferred calls and the trace.\<close>

definition release_target ::
  "env \<Rightarrow> string \<Rightarrow> string \<Rightarrow> string list \<Rightarrow> string \<Rightarrow> string \<Rightarrow> string \<Rightarrow>
   deferred list \<Rightarrow> trace \<Rightarrow> error option \<times> deferred list \<times> trace" where
  "release_target E binary mainPath buildFlags releasePath prefix t ds tr =
     (case call (EvParseTarget t) (\<lambda>h. gocmd_ParseTarget E t) tr of
        (Inl e, tr1) \<Rightarrow> (Some e, ds, tr1)
      | (Inr (goos, goarch), tr1) \<Rightarrow>
     (case os_MkdirTemp E tr1 of
        Inl e \<Rightarrow> (Some e, ds, tr1 @ [EvMkdirTemp None])
      | Inr out \<Rightarrow>
     (let tr2 = tr1 @ [EvMkdirTemp (Some out)];
          ds1 = DeferRemoveAll out # ds;
          buildOptions = [(gocmd_EnvGOOS E, goos), (gocmd_EnvGOARCH E, goarch)] in
      case call (EvBuildPath out binary mainPath buildFlags buildOptions)
             (\<lambda>h. gocmd_BuildPath E h out binary mainPath buildFlags buildOptions) tr2 of
        (Some e, tr3) \<Rightarrow> (Some e, ds1, tr3)
      | (None, tr3) \<Rightarrow>
     (case call (EvTar out) (\<lambda>h. archive_Tar E h out) tr3 of
        (Some e, tr4) \<Rightarrow> (Some e, ds1, tr4)
      | (None, tr4) \<Rightarrow>
     (let tarPath = filepath_Join E releasePath (tarName prefix goos goarch) in
      case call (EvCreate tarPath) (\<lambda>h. os_Create E h tarPath) tr4 of
        (Some e, tr5) \<Rightarrow> (Some e, ds1, tr5)
      | (None, tr5) \<Rightarrow>
     (let ds2 = DeferClose tarPath # ds1 in
      case call (EvCopy tarPath out) (\<lambda>h. io_Copy E h tarPath out) tr5 of
        (Some e, tr6) \<Rightarrow> (Some e, ds2, tr6)
      | (None, tr6) \<Rightarrow> (None, ds2, tr6 @ [EvClose tarPath])))))))"

text \<open>The loop over the targets: it stops at the first target that fails.\<close>

fun release_loop ::
  "env \<Rightarrow> string \<Rightarrow> string \<Rightarrow> string list \<Rightarrow> string \<Rightarrow> string \<Rightarrow> string list \<Rightarrow>
   deferred list \<Rightarrow> trace \<Rightarrow> error option \<times> deferred list \<times> trace" where
  "release_loop E binary mainPath buildFlags releasePath prefix [] ds tr = (None, ds, tr)"
| "release_loop E binary mainPath buildFlags releasePath prefix (t # ts) ds tr =
     (case release_target E binary mainPath buildFlags releasePath prefix t ds tr of
        (Some e, ds', tr') \<Rightarrow> (Some e, ds', tr')
      | (None, ds', tr') \<Rightarrow> release_loop E binary mainPath buildFlags releasePath prefix ts ds' tr')"

text \<open>The defaults of lines 75 to 80.\<close>

definition default_prefix :: "chain \<Rightarrow> string \<Rightarrow> string" where
  "default_prefix c prefix = (if prefix = [] then app_Name c else prefix)"

definition default_targets :: "env \<Rightarrow> string list \<Rightarrow> string list" where
  "default_targets E targets =
     (if length targets = 0 then [gocmd_BuildTarget E (runtime_GOOS E) (runtime_GOARCH E)]
      else targets)"

text \<open>Lines 83 to 157: everything that BuildRelease does before the checksum. The
  result is the error with which BuildRelease returns or the release directory, the
  deferred calls registered so far and the trace.\<close>

definition release_build ::
  "env \<Rightarrow> chain \<Rightarrow> string \<Rightarrow> string \<Rightarrow> string list \<Rightarrow> trace \<Rightarrow>
   (error + string) \<times> deferred list \<times> trace" where
  "release_build E c output prefix targets tr =
     (case release_setup E c tr of
        (Inl e, tr1) \<Rightarrow> (Inl e, [], tr1)
      | (Inr (buildFlags, binary, mainPath), tr1) \<Rightarrow>
     (case release_dir E c output tr1 of
        (Inl e, tr2) \<Rightarrow> (Inl e, [], tr2)
      | (Inr releasePath, tr2) \<Rightarrow>
     (case release_loop E binary mainPath buildFlags releasePath prefix targets [] tr2 of
        (Some e, ds, tr3) \<Rightarrow> (Inl e, ds, tr3)
      | (None, ds, tr3) \<Rightarrow> (Inr releasePath, ds, tr3))))"

definition BuildRelease ::
  "env \<Rightarrow> chain \<Rightarrow> string \<Rightarrow> string \<Rightarrow> string list \<Rightarrow> (string \<times> error option) \<times> trace" where
  "BuildRelease E c output prefix0 targets0 =
     (let prefix = default_prefix c prefix0;
          targets = default_targets E targets0 in
      case release_build E c output prefix targets [] of
        (Inl e, ds, tr3) \<Rightarrow> (([], Some e), run_deferred ds tr3)
      | (Inr releasePath, ds, tr3) \<Rightarrow>
     (let checksumPath = filepath_Join E releasePath checksumTxt in
      case call (EvChecksumSum releasePath checksumPath)
             (\<lambda>h. checksum_Sum E h releasePath checksumPath) tr3 of
        (err, tr4) \<Rightarrow> ((releasePath, err), run_deferred ds tr4)))"

section \<open>Reading a trace\<close>

fun removal_path :: "event \<Rightarrow> string list" where
  "removal_path (EvRemoveAll p) = [p]"
| "removal_path ev = []"

text \<open>The paths given to \<^verbatim>\<open>os.RemoveAll\<close>, in the order of the calls.\<close>

definition removals :: "trace \<Rightarrow> string list" where
  "removals tr = concat (map removal_path tr)"

fun tempdir_path :: "event \<Rightarrow> string list" where
  "tempdir_path (EvMkdirTemp (Some out)) = [out]"
| "tempdir_path ev = []"

text \<open>The directories that \<^verbatim>\<open>os.MkdirTemp\<close> created, in the order of the calls.\<close>

definition tempdirs :: "trace \<Rightarrow> string list" where
  "tempdirs tr = concat (map tempdir_path tr)"

fun create_path :: "event \<Rightarrow> string list" where
  "create_path (EvCreate p) = [p]"
| "create_path ev = []"

text \<open>The paths given to \<^verbatim>\<open>os.Create\<close>, in the order of the calls.\<close>

definition creates :: "trace \<Rightarrow> string list" where
  "creates tr = concat (map create_path tr)"

fun parse_token :: "event \<Rightarrow> string list" where
  "parse_token (EvParseTarget t) = [t]"
| "parse_token ev = []"

text \<open>The target tokens given to \<^verbatim>\<open>gocmd.ParseTarget\<close>, in the order of the calls.\<close>

definition target_tokens :: "trace \<Rightarrow> string list" where
  "target_tokens tr = concat (map parse_token tr)"

fun is_ChecksumSum :: "event \<Rightarrow> bool" where
  "is_ChecksumSum (EvChecksumSum d p) = True"
| "is_ChecksumSum ev = False"

fun deferred_removal :: "deferred \<Rightarrow> string list" where
  "deferred_removal (DeferRemoveAll out) = [out]"
| "deferred_removal (DeferClose p) = []"

definition deferred_removals :: "deferred list \<Rightarrow> string list" where
  "deferred_removals ds = concat (map deferred_removal ds)"

fun is_CannotBuildAppError :: "error option \<Rightarrow> bool" where
  "is_CannotBuildAppError (Some (CannotBuildAppError e)) = True"
| "is_CannotBuildAppError err = False"

text \<open>The archive that BuildRelease writes for a target token, when the token parses.\<close>

definition archive_path :: "env \<Rightarrow> string \<Rightarrow> string \<Rightarrow> string \<Rightarrow> string option" where
  "archive_path E releasePath prefix t =
     (case gocmd_ParseTarget E t of
        Inl e \<Rightarrow> None
      | Inr (goos, goarch) \<Rightarrow> Some (filepath_Join E releasePath (tarName prefix goos goarch)))"

section \<open>A concrete project and concrete collaborators\<close>

definition mars :: chain where
  "mars = \<lparr>app_Name = ''mars'', app_Path = ''/src/mars'',
            app_ImportPath = ''github.com/test/mars'', app_D = ''marsd'',
            sourceVersion_tag = ''v0.1.0'', sourceVersion_hash = ''abc123''\<rparr>"

definition mars_config :: config where
  "mars_config = \<lparr>Build_LDFlags = [''-s'', ''-w''], Build_Main = []\<rparr>"

fun join_space :: "string list \<Rightarrow> string" where
  "join_space [] = []"
| "join_space [x] = x"
| "join_space (x # y # ys) = x @ '' '' @ join_space (y # ys)"

text \<open>Collaborators that all succeed: one main package, a temporary directory per call.\<close>

definition host :: env where
  "host = \<lparr>
     strings_Title = (\<lambda>s. if s = ''mars'' then ''Mars'' else s),
     filepath_Join = (\<lambda>a b. a @ ''/'' @ b),
     runtime_GOOS = ''linux'',
     runtime_GOARCH = ''amd64'',
     gocmd_FlagMod = ''-mod'',
     gocmd_FlagModValueReadOnly = ''readonly'',
     gocmd_FlagLdflags = ''-ldflags'',
     gocmd_Ldflags = join_space,
     gocmd_EnvGOOS = ''GOOS'',
     gocmd_EnvGOARCH = ''GOARCH'',
     gocmd_BuildTarget = BuildTarget_spec,
     gocmd_ParseTarget = ParseTarget_spec,
     chain_setup = (\<lambda>h. None),
     generateAll = (\<lambda>h. None),
     Config = (\<lambda>h. Inr mars_config),
     ID = (\<lambda>h. Inr ''mars-1''),
     Binary = (\<lambda>h. (''marsd'', None)),
     gocmd_ModTidy = (\<lambda>h p. None),
     gocmd_ModVerify = (\<lambda>h p. None),
     goanalysis_DiscoverOneMain = (\<lambda>h p. (p @ ''/cmd/marsd'', None)),
     gocmd_BuildPath = (\<lambda>h out binary path flags opts. None),
     os_RemoveAll = (\<lambda>h p. None),
     os_MkdirAll = (\<lambda>h p. None),
     os_MkdirTemp = (\<lambda>h. Inr (''/tmp/'' @ replicate (length (tempdirs h)) (CHR ''x''))),
     archive_Tar = (\<lambda>h p. None),
     os_Create = (\<lambda>h p. None),
     io_Copy = (\<lambda>h dst src. None),
     checksum_Sum = (\<lambda>h d p. None)\<rparr>"

text \<open>The same collaborators with a compiler that exits with an error, and with a
  checksum that cannot be written.\<close>

definition compiler_fails :: env where
  "compiler_fails =
     host\<lparr>gocmd_BuildPath := (\<lambda>h out binary path flags opts. Some (ExitError ''exit status 2''))\<rparr>"

definition checksum_fails :: env where
  "checksum_fails = host\<lparr>checksum_Sum := (\<lambda>h d p. Some (OtherError ''checksum failed''))\<rparr>"

text \<open>The same collaborators with a disk on which no archive can be created.\<close>

definition create_fails :: env where
  "create_fails = host\<lparr>os_Create := (\<lambda>h p. Some (OtherError ''disk full''))\<rparr>"

text \<open>The build flags of the project \<open>mars\<close>.\<close>

definition mars_flags :: "string list" where
  "mars_flags =
     [''-mod'', ''readonly'', ''-ldflags'',
      ''-s -w -X github.com/cosmos/cosmos-sdk/version.Name=Mars -X github.com/cosmos/cosmos-sdk/version.AppName=marsd -X github.com/cosmos/cosmos-sdk/version.Version=v0.1.0 -X github.com/cosmos/cosmos-sdk/version.Commit=abc123 -X github.com/test/mars/cmd/marsd/cmd.ChainID=mars-1'']"

section \<open>Traces of the release pipeline\<close>

lemma removals_append [simp]: "removals (xs @ ys) = removals xs @ removals ys"
  by (simp add: removals_def)
lemma removals_Nil [simp]: "removals [] = []"
  by (simp add: removals_def)
lemma removals_Cons [simp]: "removals (ev # tr) = removal_path ev @ removals tr"
  by (simp add: removals_def)
lemma tempdirs_append [simp]: "tempdirs (xs @ ys) = tempdirs xs @ tempdirs ys"
  by (simp add: tempdirs_def)
lemma tempdirs_Nil [simp]: "tempdirs [] = []"
  by (simp add: tempdirs_def)
lemma tempdirs_Cons [simp]: "tempdirs (ev # tr) = tempdir_path ev @ tempdirs tr"
  by (simp add: tempdirs_def)
lemma creates_append [simp]: "creates (xs @ ys) = creates xs @ creates ys"
  by (simp add: creates_def)
lemma creates_Nil [simp]: "creates [] = []"
  by (simp add: creates_def)
lemma creates_Cons [simp]: "creates (ev # tr) = create_path ev @ creates tr"
  by (simp add: creates_def)
lemma deferred_removals_Nil [simp]: "deferred_removals [] = []"
  by (simp add: deferred_removals_def)
lemma deferred_removals_Cons [simp]:
  "deferred_removals (d # ds) = deferred_removal d @ deferred_removals ds"
  by (simp add: deferred_removals_def)

lemma run_deferred_eq: "run_deferred ds tr = tr @ map deferred_event ds"
  by (induction ds arbitrary: tr) auto

lemma removal_path_deferred: "removal_path (deferred_event d) = deferred_removal d"
  by (cases d) auto

lemma tempdir_path_deferred: "tempdir_path (deferred_event d) = []"
  by (cases d) auto

lemma not_checksum_deferred: "\<not> is_ChecksumSum (deferred_event d)"
  by (cases d) auto

lemma removals_deferred: "removals (map deferred_event ds) = deferred_removals ds"
  by (induction ds) (simp_all add: removal_path_deferred)

lemma tempdirs_deferred: "tempdirs (map deferred_event ds) = []"
  by (induction ds) (simp_all add: tempdir_path_deferred)

lemma checksum_deferred: "filter is_ChecksumSum (map deferred_event ds) = []"
  by (induction ds) (simp_all add: not_checksum_deferred)

lemma release_target_parse_fail:
  "gocmd_ParseTarget E t = Inl e \<Longrightarrow>
   release_target E binary mainPath buildFlags releasePath prefix t ds tr =
     (Some e, ds, tr @ [EvParseTarget t])"
  by (simp add: release_target_def call_def)

lemma release_target_success:
  assumes "release_target E binary mainPath buildFlags releasePath prefix t ds tr = (None, ds', tr')"
  shows "\<exists>goos goarch out.
           gocmd_ParseTarget E t = Inr (goos, goarch) \<and>
           os_MkdirTemp E (tr @ [EvParseTarget t]) = Inr out \<and>
           tr' = tr @ [EvParseTarget t, EvMkdirTemp (Some out),
                       EvBuildPath out binary mainPath buildFlags
                         [(gocmd_EnvGOOS E, goos), (gocmd_EnvGOARCH E, goarch)],
                       EvTar out,
                       EvCreate (filepath_Join E releasePath (tarName prefix goos goarch)),
                       EvCopy (filepath_Join E releasePath (tarName prefix goos goarch)) out,
                       EvClose (filepath_Join E releasePath (tarName prefix goos goarch))] \<and>
           ds' = DeferClose (filepath_Join E releasePath (tarName prefix goos goarch)) #
                 DeferRemoveAll out # ds"
  using assms
  by (auto simp: release_target_def call_def Let_def split: sum.splits option.splits prod.splits)

lemma release_target_frame:
  assumes "release_target E binary mainPath buildFlags releasePath prefix t ds tr = (r, ds', tr')"
  shows "\<exists>evs new. tr' = tr @ EvParseTarget t # evs \<and> ds' = new @ ds \<and>
           removals evs = [] \<and> filter is_ChecksumSum evs = [] \<and>
           deferred_removals new = rev (tempdirs evs)"
  using assms
  by (auto simp: release_target_def call_def Let_def split: sum.splits option.splits prod.splits)


lemma release_loop_append:
  "release_loop E binary mainPath buildFlags releasePath prefix (pre @ rest) ds tr =
     (case release_loop E binary mainPath buildFlags releasePath prefix pre ds tr of
        (Some e, ds', tr') \<Rightarrow> (Some e, ds', tr')
      | (None, ds', tr') \<Rightarrow>
          release_loop E binary mainPath buildFlags releasePath prefix rest ds' tr')"
  by (induction pre arbitrary: ds tr) (auto split: prod.splits option.splits)

lemma deferred_removals_append [simp]:
  "deferred_removals (xs @ ys) = deferred_removals xs @ deferred_removals ys"
  by (simp add: deferred_removals_def)

lemma release_loop_frame:
  assumes "release_loop E binary mainPath buildFlags releasePath prefix ts ds tr = (r, ds', tr')"
  shows "\<exists>evs new. tr' = tr @ evs \<and> ds' = new @ ds \<and>
           removals evs = [] \<and> filter is_ChecksumSum evs = [] \<and>
           deferred_removals new = rev (tempdirs evs)"
  using assms
proof (induction ts arbitrary: ds tr)
  case Nil
  then show ?case by simp
next
  case (Cons t ts)
  obtain r1 ds1 tr1 where
    body: "release_target E binary mainPath buildFlags releasePath prefix t ds tr = (r1, ds1, tr1)"
    by (cases "release_target E binary mainPath buildFlags releasePath prefix t ds tr") auto
  from release_target_frame [OF body] obtain evs1 new1 where
    f1: "tr1 = tr @ EvParseTarget t # evs1" "ds1 = new1 @ ds" "removals evs1 = []"
      "filter is_ChecksumSum evs1 = []" "deferred_removals new1 = rev (tempdirs evs1)"
    by blast
  show ?case
  proof (cases r1)
    case (Some e)
    with Cons.prems body have "tr' = tr1" "ds' = ds1" by auto
    with f1 show ?thesis by auto
  next
    case None
    with Cons.prems body have
      "release_loop E binary mainPath buildFlags releasePath prefix ts ds1 tr1 = (r, ds', tr')"
      by auto
    from Cons.IH [OF this] obtain evs2 new2 where
      f2: "tr' = tr1 @ evs2" "ds' = new2 @ ds1" "removals evs2 = []"
        "filter is_ChecksumSum evs2 = []" "deferred_removals new2 = rev (tempdirs evs2)"
      by blast
    have "tr' = tr @ (EvParseTarget t # evs1 @ evs2)" using f1 f2 by simp
    moreover have "ds' = (new2 @ new1) @ ds" using f1 f2 by simp
    moreover have "removals (EvParseTarget t # evs1 @ evs2) = []" using f1 f2 by simp
    moreover have "filter is_ChecksumSum (EvParseTarget t # evs1 @ evs2) = []" using f1 f2 by simp
    moreover have "deferred_removals (new2 @ new1) = rev (tempdirs (EvParseTarget t # evs1 @ evs2))"
      using f1 f2 by simp
    ultimately show ?thesis by blast
  qed
qed

lemma release_loop_creates:
  assumes "release_loop E binary mainPath buildFlags releasePath prefix ts ds tr = (None, ds', tr')"
  shows "map Some (creates tr') =
           map Some (creates tr) @ map (archive_path E releasePath prefix) ts"
  using assms
proof (induction ts arbitrary: ds tr)
  case Nil
  then show ?case by simp
next
  case (Cons t ts)
  obtain r1 ds1 tr1 where
    body: "release_target E binary mainPath buildFlags releasePath prefix t ds tr = (r1, ds1, tr1)"
    by (cases "release_target E binary mainPath buildFlags releasePath prefix t ds tr") auto
  with Cons.prems have r1: "r1 = None"
    by (cases r1) auto
  with Cons.prems body have
    rest: "release_loop E binary mainPath buildFlags releasePath prefix ts ds1 tr1 = (None, ds', tr')"
    by auto
  from release_target_success [OF body [unfolded r1]]
  have "map Some (creates tr1) = map Some (creates tr) @ [archive_path E releasePath prefix t]"
    by (auto simp: archive_path_def)
  with Cons.IH [OF rest] show ?case by simp
qed

lemma release_setup_frame:
  assumes "release_setup E c tr = (r, tr')"
  shows "\<exists>evs. tr' = tr @ evs \<and> removals evs = [] \<and> tempdirs evs = [] \<and>
           filter is_ChecksumSum evs = [] \<and> creates evs = []"
  using assms
  by (auto simp: release_setup_def preBuild_def discoverMain_def call_def Let_def
           split: sum.splits option.splits prod.splits if_splits)

lemma release_dir_frame:
  assumes "release_dir E c output tr = (r, tr')"
  shows "\<exists>evs. tr' = tr @ evs \<and> tempdirs evs = [] \<and> filter is_ChecksumSum evs = [] \<and>
           creates evs = [] \<and>
           (removals evs = [] \<or>
            output = [] \<and> removals evs = [filepath_Join E (app_Path c) releaseDir])"
  using assms
  by (auto simp: release_dir_def call_def Let_def
           split: sum.splits option.splits prod.splits if_splits)


lemma deferred_removals_member:
  "DeferRemoveAll out \<in> set ds \<Longrightarrow> out \<in> set (deferred_removals ds)"
  by (induction ds) auto

lemma release_build_frame:
  assumes "release_build E c output prefix ts [] = (r, ds, tr)"
  shows "filter is_ChecksumSum tr = [] \<and> deferred_removals ds = rev (tempdirs tr) \<and>
         (removals tr = [] \<or>
          output = [] \<and> removals tr = [filepath_Join E (app_Path c) releaseDir])"
proof -
  obtain r1 tr1 where s1: "release_setup E c [] = (r1, tr1)"
    by (cases "release_setup E c []") auto
  from release_setup_frame [OF s1] have
    f1: "removals tr1 = []" "tempdirs tr1 = []" "filter is_ChecksumSum tr1 = []"
    by auto
  show ?thesis
  proof (cases r1)
    case (Inl e)
    with assms s1 have "tr = tr1" "ds = []" by (auto simp: release_build_def)
    with f1 show ?thesis by simp
  next
    case (Inr x)
    obtain buildFlags binary mainPath where x: "x = (buildFlags, binary, mainPath)"
      by (cases x) auto
    obtain r2 tr2 where s2: "release_dir E c output tr1 = (r2, tr2)"
      by (cases "release_dir E c output tr1") auto
    from release_dir_frame [OF s2] obtain evs2 where
      f2: "tr2 = tr1 @ evs2" "tempdirs evs2 = []" "filter is_ChecksumSum evs2 = []"
        "removals evs2 = [] \<or> output = [] \<and> removals evs2 = [filepath_Join E (app_Path c) releaseDir]"
      by blast
    show ?thesis
    proof (cases r2)
      case (Inl e)
      with assms s1 s2 Inr x have "tr = tr2" "ds = []" by (auto simp: release_build_def)
      with f1 f2 show ?thesis by auto
    next
      case (Inr releasePath)
      obtain r3 ds3 tr3 where
        s3: "release_loop E binary mainPath buildFlags releasePath prefix ts [] tr2 = (r3, ds3, tr3)"
        by (cases "release_loop E binary mainPath buildFlags releasePath prefix ts [] tr2") auto
      from release_loop_frame [OF s3] obtain evs3 new where
        f3: "tr3 = tr2 @ evs3" "ds3 = new @ []" "removals evs3 = []"
          "filter is_ChecksumSum evs3 = []" "deferred_removals new = rev (tempdirs evs3)"
        by blast
      from assms s1 s2 s3 \<open>r1 = Inr x\<close> x Inr have "tr = tr3" "ds = ds3"
        by (auto simp: release_build_def split: option.splits)
      with f1 f2 f3 show ?thesis by auto
    qed
  qed
qed

lemma release_build_creates:
  assumes "release_build E c output prefix ts [] = (Inr releasePath, ds, tr)"
  shows "map Some (creates tr) = map (archive_path E releasePath prefix) ts \<and>
         releasePath = (if output = [] then filepath_Join E (app_Path c) releaseDir else output)"
proof -
  from assms obtain buildFlags binary mainPath tr1 tr2 where
    s1: "release_setup E c [] = (Inr (buildFlags, binary, mainPath), tr1)" and
    s2: "release_dir E c output tr1 = (Inr releasePath, tr2)" and
    s3: "release_loop E binary mainPath buildFlags releasePath prefix ts [] tr2 = (None, ds, tr)"
    by (auto simp: release_build_def split: prod.splits sum.splits option.splits)
  from release_setup_frame [OF s1] have "creates tr1 = []" by auto
  moreover from release_dir_frame [OF s2] have "creates tr2 = creates tr1" by auto
  ultimately have "creates tr2 = []" by simp
  with release_loop_creates [OF s3] have "map Some (creates tr) = map (archive_path E releasePath prefix) ts"
    by simp
  moreover from s2 have "releasePath = (if output = [] then filepath_Join E (app_Path c) releaseDir else output)"
    by (auto simp: release_dir_def call_def Let_def split: if_splits option.splits)
  ultimately show ?thesis by simp
qed

lemma release_build_parse_fail:
  assumes "release_build E c output prefix pre [] = (Inr releasePath, ds, tr)"
    and "gocmd_ParseTarget E t = Inl e"
  shows "release_build E c output prefix (pre @ t # post) [] = (Inl e, ds, tr @ [EvParseTarget t])"
proof -
  from assms(1) obtain buildFlags binary mainPath tr1 tr2 where
    s1: "release_setup E c [] = (Inr (buildFlags, binary, mainPath), tr1)" and
    s2: "release_dir E c output tr1 = (Inr releasePath, tr2)" and
    s3: "release_loop E binary mainPath buildFlags releasePath prefix pre [] tr2 = (None, ds, tr)"
    by (auto simp: release_build_def split: prod.splits sum.splits option.splits)
  have "release_loop E binary mainPath buildFlags releasePath prefix (pre @ t # post) [] tr2 =
          (Some e, ds, tr @ [EvParseTarget t])"
    by (simp add: release_loop_append s3 release_target_parse_fail [OF assms(2)])
  with s1 s2 show ?thesis by (simp add: release_build_def)
qed

lemma default_targets_nonempty: "ts \<noteq> [] \<Longrightarrow> default_targets E ts = ts"
  by (simp add: default_targets_def)

lemma split_on_no_sep: "c \<notin> set s \<Longrightarrow> split_on c s = [s]"
  by (induction s) auto

lemma split_on_sep: "c \<notin> set a \<Longrightarrow> split_on c (a @ c # b) = a # split_on c b"
  by (induction a) auto

lemma ParseTarget_BuildTarget_spec:
  "CHR '':'' \<notin> set goos \<Longrightarrow> CHR '':'' \<notin> set goarch \<Longrightarrow>
   ParseTarget_spec (BuildTarget_spec goos goarch) = Inr (goos, goarch)"
  by (simp add: ParseTarget_spec_def BuildTarget_spec_def split_on_sep split_on_no_sep)



lemma BuildRelease_trace:
  assumes "release_build E c output (default_prefix c prefix) (default_targets E targets) [] = (r, ds, tr)"
  shows "snd (BuildRelease E c output prefix targets) =
           tr @ (case r of Inl e \<Rightarrow> []
                 | Inr releasePath \<Rightarrow>
                     [EvChecksumSum releasePath (filepath_Join E releasePath checksumTxt)]) @
           map deferred_event ds"
  using assms
  by (cases r) (simp_all add: BuildRelease_def call_def run_deferred_eq Let_def)

lemma release_build_step:
  assumes "release_setup E c [] = (Inr (buildFlags, binary, mainPath), tr1)"
    and "release_build E c output prefix' pre [] = (Inr releasePath, ds, tr)"
  shows "release_build E c output prefix' (pre @ t # post) [] =
           (case release_target E binary mainPath buildFlags releasePath prefix' t ds tr of
              (Some e, ds', tr') \<Rightarrow> (Inl e, ds', tr')
            | (None, ds', tr') \<Rightarrow>
                (case release_loop E binary mainPath buildFlags releasePath prefix' post ds' tr' of
                   (Some e, ds'', tr'') \<Rightarrow> (Inl e, ds'', tr'')
                 | (None, ds'', tr'') \<Rightarrow> (Inr releasePath, ds'', tr'')))"
proof -
  from assms obtain tr2 where
    s2: "release_dir E c output tr1 = (Inr releasePath, tr2)" and
    s3: "release_loop E binary mainPath buildFlags releasePath prefix' pre [] tr2 = (None, ds, tr)"
    by (auto simp: release_build_def split: prod.splits sum.splits option.splits)
  show ?thesis
    by (simp add: release_build_def assms(1) s2 release_loop_append s3
          split: prod.splits option.splits)
qed

lemma default_prefix_if: "default_prefix c prefix = (if prefix = [] then app_Name c else prefix)"
  by (simp add: default_prefix_def)

lemma default_targets_if:
  "default_targets E targets =
     (if targets = [] then [gocmd_BuildTarget E (runtime_GOOS E) (runtime_GOARCH E)] else targets)"
  by (simp add: default_targets_def)

lemma BuildRelease_target_error:
  assumes "prefix' = (if prefix = [] then app_Name c else prefix)"
    and "release_setup E c [] = (Inr (buildFlags, binary, mainPath), tr1)"
    and "release_build E c output prefix' pre [] = (Inr releasePath, ds, tr)"
    and "(if targets = [] then [gocmd_BuildTarget E (runtime_GOOS E) (runtime_GOARCH E)]
          else targets) = pre @ t # post"
    and "fst (release_target E binary mainPath buildFlags releasePath prefix' t ds tr) \<noteq> None"
  shows "BuildRelease E c output prefix targets =
           (([], fst (release_target E binary mainPath buildFlags releasePath prefix' t ds tr)),
            snd (snd (release_target E binary mainPath buildFlags releasePath prefix' t ds tr)) @
            map deferred_event
              (fst (snd (release_target E binary mainPath buildFlags releasePath prefix' t ds tr))))"
proof -
  obtain r ds' tr' where
    rt: "release_target E binary mainPath buildFlags releasePath prefix' t ds tr = (r, ds', tr')"
    by (cases "release_target E binary mainPath buildFlags releasePath prefix' t ds tr") auto
  with assms(5) obtain e where e: "r = Some e" by (cases r) auto
  have "release_build E c output (default_prefix c prefix) (default_targets E targets) [] =
          (Inl e, ds', tr')"
    using release_build_step [OF assms(2) assms(3), of t post] rt e assms(4) assms(1)
    by (simp add: default_prefix_if default_targets_if)
  then show ?thesis
    by (simp add: BuildRelease_def run_deferred_eq rt e)
qed

lemma release_target_answers:
  assumes "release_target E binary mainPath buildFlags releasePath prefix' t ds tr = (None, ds', tr')"
  shows "\<exists>goos goarch out.
           (let opts = [(gocmd_EnvGOOS E, goos), (gocmd_EnvGOARCH E, goarch)];
               tarPath = filepath_Join E releasePath (prefix' @ ''_'' @ goos @ ''_'' @ goarch @ ''.tar.gz'');
               u1 = tr @ [EvParseTarget t];
               u2 = u1 @ [EvMkdirTemp (Some out)];
               u3 = u2 @ [EvBuildPath out binary mainPath buildFlags opts];
               u4 = u3 @ [EvTar out];
               u5 = u4 @ [EvCreate tarPath];
               u6 = u5 @ [EvCopy tarPath out]
            in
               gocmd_ParseTarget E t = Inr (goos, goarch) \<and>
               os_MkdirTemp E u1 = Inr out \<and>
               gocmd_BuildPath E u2 out binary mainPath buildFlags opts = None \<and>
               archive_Tar E u3 out = None \<and>
               os_Create E u4 tarPath = None \<and>
               io_Copy E u5 tarPath out = None \<and>
               tr' = u6 @ [EvClose tarPath] \<and>
               ds' = DeferClose tarPath # DeferRemoveAll out # ds)"
  using assms
  by (auto simp: release_target_def call_def Let_def tarName_def
           split: sum.splits option.splits prod.splits)

lemma checksum_attempted:
  assumes "filter is_ChecksumSum (snd (BuildRelease E c outputDir prefix targets)) \<noteq> []"
  shows "\<exists>releasePath ds tr.
           release_build E c outputDir (default_prefix c prefix) (default_targets E targets) [] =
             (Inr releasePath, ds, tr)"
proof -
  obtain r ds tr where
    h: "release_build E c outputDir (default_prefix c prefix) (default_targets E targets) [] =
          (r, ds, tr)"
    by (cases "release_build E c outputDir (default_prefix c prefix) (default_targets E targets) []")
       auto
  show ?thesis
  proof (cases r)
    case (Inl e)
    from release_build_frame [OF h] have "filter is_ChecksumSum tr = []" by simp
    with BuildRelease_trace [OF h] Inl assms show ?thesis
      by (simp add: checksum_deferred)
  next
    case (Inr releasePath)
    with h show ?thesis by blast
  qed
qed

lemma release_build_split:
  assumes "release_setup E c [] = (Inr (buildFlags, binary, mainPath), setupTrace)"
    and "release_build E c outputDir prefix' (pre @ t # post) [] = (Inr releasePath, ds', tr')"
  shows "\<exists>ds tr ds1 trace1.
           release_build E c outputDir prefix' pre [] = (Inr releasePath, ds, tr) \<and>
           release_target E binary mainPath buildFlags releasePath prefix' t ds tr =
             (None, ds1, trace1)"
proof -
  from assms obtain tr2 where
    s2: "release_dir E c outputDir setupTrace = (Inr releasePath, tr2)" and
    s3: "release_loop E binary mainPath buildFlags releasePath prefix' (pre @ t # post) [] tr2 =
           (None, ds', tr')"
    by (auto simp: release_build_def split: prod.splits sum.splits option.splits)
  obtain r0 ds0 tr0 where
    l0: "release_loop E binary mainPath buildFlags releasePath prefix' pre [] tr2 = (r0, ds0, tr0)"
    by (cases "release_loop E binary mainPath buildFlags releasePath prefix' pre [] tr2") auto
  with s3 have r0: "r0 = None"
    by (cases r0) (simp_all add: release_loop_append)
  obtain r1 ds1 trace1 where
    l1: "release_target E binary mainPath buildFlags releasePath prefix' t ds0 tr0 = (r1, ds1, trace1)"
    by (cases "release_target E binary mainPath buildFlags releasePath prefix' t ds0 tr0") auto
  with s3 l0 r0 have r1: "r1 = None"
    by (cases r1) (simp_all add: release_loop_append)
  have "release_build E c outputDir prefix' pre [] = (Inr releasePath, ds0, tr0)"
    by (simp add: release_build_def assms(1) s2 l0 r0)
  with l1 r1 show ?thesis by blast
qed

lemma target_tokens_append [simp]:
  "target_tokens (xs @ ys) = target_tokens xs @ target_tokens ys"
  by (simp add: target_tokens_def)

lemma target_tokens_Nil [simp]: "target_tokens [] = []"
  by (simp add: target_tokens_def)

lemma target_tokens_Cons [simp]: "target_tokens (ev # tr) = parse_token ev @ target_tokens tr"
  by (simp add: target_tokens_def)

lemma parse_token_deferred: "parse_token (deferred_event d) = []"
  by (cases d) auto

lemma target_tokens_deferred: "target_tokens (map deferred_event ds) = []"
  by (induction ds) (simp_all add: parse_token_deferred)

lemma release_target_tokens:
  assumes "release_target E binary mainPath buildFlags releasePath prefix' t ds tr = (r, ds', tr')"
  shows "target_tokens tr' = target_tokens tr @ [t]"
  using assms
  by (auto simp: release_target_def call_def Let_def split: sum.splits option.splits prod.splits)

lemma release_loop_tokens:
  assumes "release_loop E binary mainPath buildFlags releasePath prefix' ts ds tr = (r, ds', tr')"
  shows "\<exists>k. target_tokens tr' = target_tokens tr @ take k ts"
  using assms
proof (induction ts arbitrary: ds tr)
  case Nil
  then show ?case by simp
next
  case (Cons t ts)
  obtain r1 ds1 trace1 where
    body: "release_target E binary mainPath buildFlags releasePath prefix' t ds tr = (r1, ds1, trace1)"
    by (cases "release_target E binary mainPath buildFlags releasePath prefix' t ds tr") auto
  note tok = release_target_tokens [OF body]
  show ?case
  proof (cases r1)
    case (Some e)
    with Cons.prems body have "tr' = trace1" by auto
    with tok have "target_tokens tr' = target_tokens tr @ take (Suc 0) (t # ts)" by simp
    then show ?thesis by blast
  next
    case None
    with Cons.prems body have
      "release_loop E binary mainPath buildFlags releasePath prefix' ts ds1 trace1 = (r, ds', tr')"
      by auto
    from Cons.IH [OF this] obtain k where "target_tokens tr' = target_tokens trace1 @ take k ts"
      by blast
    with tok have "target_tokens tr' = target_tokens tr @ take (Suc k) (t # ts)" by simp
    then show ?thesis by blast
  qed
qed

lemma release_setup_tokens:
  assumes "release_setup E c tr = (r, tr')"
  shows "target_tokens tr' = target_tokens tr"
  using assms
  by (auto simp: release_setup_def preBuild_def discoverMain_def call_def Let_def
           split: sum.splits option.splits prod.splits if_splits)

lemma release_dir_tokens:
  assumes "release_dir E c outputDir tr = (r, tr')"
  shows "target_tokens tr' = target_tokens tr"
  using assms
  by (auto simp: release_dir_def call_def Let_def
           split: sum.splits option.splits prod.splits if_splits)

lemma release_build_tokens:
  assumes "release_build E c outputDir prefix' ts [] = (r, ds, tr)"
  shows "\<exists>k. target_tokens tr = take k ts"
proof -
  obtain r1 tr1 where s1: "release_setup E c [] = (r1, tr1)"
    by (cases "release_setup E c []") auto
  from release_setup_tokens [OF s1] have t1: "target_tokens tr1 = []" by simp
  show ?thesis
  proof (cases r1)
    case (Inl e)
    with assms s1 have "tr = tr1" by (auto simp: release_build_def)
    with t1 have "target_tokens tr = take 0 ts" by simp
    then show ?thesis by blast
  next
    case (Inr x)
    obtain buildFlags binary mainPath where x: "x = (buildFlags, binary, mainPath)"
      by (cases x) auto
    obtain r2 tr2 where s2: "release_dir E c outputDir tr1 = (r2, tr2)"
      by (cases "release_dir E c outputDir tr1") auto
    from release_dir_tokens [OF s2] t1 have t2: "target_tokens tr2 = []" by simp
    show ?thesis
    proof (cases r2)
      case (Inl e)
      with assms s1 s2 Inr x have "tr = tr2" by (auto simp: release_build_def)
      with t2 have "target_tokens tr = take 0 ts" by simp
      then show ?thesis by blast
    next
      case (Inr releasePath)
      obtain r3 ds3 tr3 where
        s3: "release_loop E binary mainPath buildFlags releasePath prefix' ts [] tr2 = (r3, ds3, tr3)"
        by (cases "release_loop E binary mainPath buildFlags releasePath prefix' ts [] tr2") auto
      from assms s1 s2 s3 \<open>r1 = Inr x\<close> x Inr have "tr = tr3"
        by (auto simp: release_build_def split: option.splits)
      with release_loop_tokens [OF s3] t2 show ?thesis by simp
    qed
  qed
qed

section \<open>Entry-point resolution with an explicit main package\<close>

text \<open>
  Claim C5. When the configuration loads and sets a non-empty \<^verbatim>\<open>build.main\<close>,
  \<open>discoverMain\<close> returns the join of the source root \<^verbatim>\<open>c.app.Path\<close> with the configured
  path and no error. The only call it makes is the one that loads the configuration:
  the source tree is not scanned, so the answer is the same whatever the scanner
  \<^verbatim>\<open>goanalysis.DiscoverOneMain\<close> would have found.
\<close>

theorem discoverMain_explicit:
  assumes "Config E tr = Inr conf" and "Build_Main conf \<noteq> []"
  shows "discoverMain (E\<lparr>goanalysis_DiscoverOneMain := scan\<rparr>) c path tr =
           ((filepath_Join E (app_Path c) (Build_Main conf), None), tr @ [EvConfig])"
  using assms by (simp add: discoverMain_def call_def)

theorem discoverMain_explicit_witness:
  "Config (host\<lparr>Config := (\<lambda>h. Inr (mars_config\<lparr>Build_Main := ''cmd/marsd''\<rparr>))\<rparr>) [] =
     Inr (mars_config\<lparr>Build_Main := ''cmd/marsd''\<rparr>) \<and>
   Build_Main (mars_config\<lparr>Build_Main := ''cmd/marsd''\<rparr>) \<noteq> [] \<and>
   discoverMain
     (host\<lparr>Config := (\<lambda>h. Inr (mars_config\<lparr>Build_Main := ''cmd/marsd''\<rparr>)),
           goanalysis_DiscoverOneMain := (\<lambda>h p. ([], Some ErrMultipleMainPackagesFound))\<rparr>)
     mars ''/src/mars'' [] = ((''/src/mars/cmd/marsd'', None), [EvConfig])"
  using discoverMain_explicit
    [of "host\<lparr>Config := (\<lambda>h. Inr (mars_config\<lparr>Build_Main := ''cmd/marsd''\<rparr>))\<rparr>" "[]"
        "mars_config\<lparr>Build_Main := ''cmd/marsd''\<rparr>"
        "\<lambda>h p. ([], Some ErrMultipleMainPackagesFound)" mars "''/src/mars''"]
  by (simp add: host_def mars_def mars_config_def)

section \<open>The build flags\<close>

text \<open>
  Claim C7. Whenever \<open>preBuild\<close> succeeds, the flags it returns are the module-mode flag
  with its read-only value, then the linker flag with one aggregated token. The token
  is made of the linker flags of the configuration followed by exactly five injected
  flags, in this order: the title-cased application name, the binary name (the
  application name followed by d), the version tag, the commit hash and the chain
  identifier. The flags are a function of the configuration, the chain identifier and
  the project alone, so equal inputs give the same flags in the same order.
\<close>

theorem preBuild_flags:
  assumes "preBuild E c tr = (Inr buildFlags, tr')"
  shows "\<exists>conf chainID.
           Config E tr = Inr conf \<and> ID E (tr @ [EvConfig]) = Inr chainID \<and>
           buildFlags =
             [gocmd_FlagMod E, gocmd_FlagModValueReadOnly E, gocmd_FlagLdflags E,
              gocmd_Ldflags E
                (Build_LDFlags conf @
                 [''-X github.com/cosmos/cosmos-sdk/version.Name='' @ strings_Title E (app_Name c),
                  ''-X github.com/cosmos/cosmos-sdk/version.AppName='' @ app_Name c @ ''d'',
                  ''-X github.com/cosmos/cosmos-sdk/version.Version='' @ sourceVersion_tag c,
                  ''-X github.com/cosmos/cosmos-sdk/version.Commit='' @ sourceVersion_hash c,
                  ''-X '' @ app_ImportPath c @ ''/cmd/'' @ app_D c @ ''/cmd.ChainID='' @ chainID])]"
  using assms
  by (auto simp: preBuild_def call_def assembleFlags_def injectedFlags_def Let_def
           split: sum.splits option.splits)

theorem preBuild_flags_witness:
  "preBuild host mars [] =
     (Inr [''-mod'', ''readonly'', ''-ldflags'',
           ''-s -w -X github.com/cosmos/cosmos-sdk/version.Name=Mars -X github.com/cosmos/cosmos-sdk/version.AppName=marsd -X github.com/cosmos/cosmos-sdk/version.Version=v0.1.0 -X github.com/cosmos/cosmos-sdk/version.Commit=abc123 -X github.com/test/mars/cmd/marsd/cmd.ChainID=mars-1''],
      [EvConfig, EvID, EvModTidy ''/src/mars'', EvModVerify ''/src/mars'']) \<and>
   (\<exists>conf chainID.
      Config host [] = Inr conf \<and> ID host ([] @ [EvConfig]) = Inr chainID \<and>
      [''-mod'', ''readonly'', ''-ldflags'',
       ''-s -w -X github.com/cosmos/cosmos-sdk/version.Name=Mars -X github.com/cosmos/cosmos-sdk/version.AppName=marsd -X github.com/cosmos/cosmos-sdk/version.Version=v0.1.0 -X github.com/cosmos/cosmos-sdk/version.Commit=abc123 -X github.com/test/mars/cmd/marsd/cmd.ChainID=mars-1''] =
      [gocmd_FlagMod host, gocmd_FlagModValueReadOnly host, gocmd_FlagLdflags host,
       gocmd_Ldflags host
         (Build_LDFlags conf @
          [''-X github.com/cosmos/cosmos-sdk/version.Name='' @ strings_Title host (app_Name mars),
           ''-X github.com/cosmos/cosmos-sdk/version.AppName='' @ app_Name mars @ ''d'',
           ''-X github.com/cosmos/cosmos-sdk/version.Version='' @ sourceVersion_tag mars,
           ''-X github.com/cosmos/cosmos-sdk/version.Commit='' @ sourceVersion_hash mars,
           ''-X '' @ app_ImportPath mars @ ''/cmd/'' @ app_D mars @ ''/cmd.ChainID='' @ chainID])])"
proof -
  have run: "preBuild host mars [] =
     (Inr [''-mod'', ''readonly'', ''-ldflags'',
           ''-s -w -X github.com/cosmos/cosmos-sdk/version.Name=Mars -X github.com/cosmos/cosmos-sdk/version.AppName=marsd -X github.com/cosmos/cosmos-sdk/version.Version=v0.1.0 -X github.com/cosmos/cosmos-sdk/version.Commit=abc123 -X github.com/test/mars/cmd/marsd/cmd.ChainID=mars-1''],
      [EvConfig, EvID, EvModTidy ''/src/mars'', EvModVerify ''/src/mars''])"
    by code_simp
  from preBuild_flags [OF run] run show ?thesis by blast
qed

section \<open>Error classification\<close>

lemma reclassify_Some:
  "reclassify (Some e) =
     Some (if chain_has_ExitError e \<or> chain_has_ErrMultiple e then CannotBuildAppError e else e)"
  by (simp add: reclassify_def errors_As_ExitError_def errors_Is_ErrMultiple_def)

text \<open>
  Claim C1, as the code has it. In Build an error of \<open>setup\<close> is returned unchanged.
  When a later call fails (code generation, the configuration, the chain identifier,
  \<^verbatim>\<open>go mod tidy\<close>, \<^verbatim>\<open>go mod verify\<close>, the binary name, the scan for the main package or
  the compiler), its error \<open>e\<close> is returned as \<open>CannotBuildAppError e\<close> when the chain of
  \<open>e\<close> holds an exit error or the multiple-main-packages sentinel, and unchanged otherwise;
  the sentinel of the scan comes back inside \<open>CannotBuildAppError\<close>, wrapped in the
  message about \<^verbatim>\<open>build.main\<close>. In BuildRelease an error whose chain holds neither an exit
  error nor the sentinel is returned unchanged, whichever call fails: a call before the
  loop, a call for a target that the loop reaches, or the checksum. Every case is stated
  on the answer of the collaborator, at the trace at which it is asked.
\<close>

theorem Build_reclassifies:
  "(let p = app_Path c;
       t1 = [EvSetup];
       t2 = t1 @ [EvGenerateAll];
       t3 = t2 @ [EvConfig];
       t4 = t3 @ [EvID];
       t5 = t4 @ [EvModTidy p];
       t6 = t5 @ [EvModVerify p];
       t7 = t6 @ [EvBinary];
       t8 = t7 @ [EvConfig];
       t9 = t8 @ [EvDiscoverOneMain p];
       returns = (\<lambda>err. fst (Build E c outputDir) = ([], Some err));
       surfaced = (\<lambda>err. if chain_has_ExitError err \<or> chain_has_ErrMultiple err
                     then CannotBuildAppError err else err)
    in
       (chain_setup E [] = Some e \<longrightarrow>
          returns e) \<and>
       (chain_setup E [] = None \<longrightarrow>
          (generateAll E t1 = Some e \<longrightarrow>
             returns (surfaced e)) \<and>
          (generateAll E t1 = None \<longrightarrow>
             (Config E t2 = Inl e \<longrightarrow>
                returns (surfaced e)) \<and>
             (Config E t2 = Inr conf \<longrightarrow>
                (ID E t3 = Inl e \<longrightarrow>
                   returns (surfaced e)) \<and>
                (ID E t3 = Inr chainID \<longrightarrow>
                   (gocmd_ModTidy E t4 p = Some e \<longrightarrow>
                      returns (surfaced e)) \<and>
                   (gocmd_ModTidy E t4 p = None \<longrightarrow>
                      (gocmd_ModVerify E t5 p = Some e \<longrightarrow>
                         returns (surfaced e)) \<and>
                      (gocmd_ModVerify E t5 p = None \<longrightarrow>
                         (Binary E t6 = (binary, Some e) \<longrightarrow>
                            returns (surfaced e)) \<and>
                         (Binary E t6 = (binary, None) \<longrightarrow>
                            (Config E t7 = Inl e \<longrightarrow>
                               returns (surfaced e)) \<and>
                            (Config E t7 = Inr conf' \<longrightarrow>
                               (Build_Main conf' \<noteq> [] \<longrightarrow>
                                  (gocmd_BuildPath E t8 outputDir binary (filepath_Join E p (Build_Main conf')) (assembleFlags E c conf chainID) [] = Some e \<longrightarrow>
                                     returns (surfaced e))) \<and>
                               (Build_Main conf' = [] \<longrightarrow>
                                  (goanalysis_DiscoverOneMain E t8 p = (mainPath, Some ErrMultipleMainPackagesFound) \<longrightarrow>
                                     returns (CannotBuildAppError (Wrap ''specify the path to your chain's main package in your config.yml>build.main'' ErrMultipleMainPackagesFound))) \<and>
                                  (goanalysis_DiscoverOneMain E t8 p = (mainPath, Some e) \<and> e \<noteq> ErrMultipleMainPackagesFound \<longrightarrow>
                                     returns (surfaced e)) \<and>
                                  (goanalysis_DiscoverOneMain E t8 p = (mainPath, None) \<longrightarrow>
                                     (gocmd_BuildPath E t9 outputDir binary mainPath (assembleFlags E c conf chainID) [] = Some e \<longrightarrow>
                                        returns (surfaced e))))))))))))) \<and>
   (\<not> chain_has_ExitError e \<and> \<not> chain_has_ErrMultiple e \<longrightarrow>
      (let p = app_Path c;
          t1 = [EvSetup];
          t2 = t1 @ [EvConfig];
          t3 = t2 @ [EvID];
          t4 = t3 @ [EvModTidy p];
          t5 = t4 @ [EvModVerify p];
          t6 = t5 @ [EvBinary];
          t7 = t6 @ [EvConfig];
          t8 = t7 @ [EvDiscoverOneMain p];
          unchanged = (\<lambda>err. snd (fst (BuildRelease E c outputDir prefix targets)) = Some err)
       in
          (chain_setup E [] = Some e \<longrightarrow>
             unchanged e) \<and>
          (chain_setup E [] = None \<longrightarrow>
             (Config E t1 = Inl e \<longrightarrow>
                unchanged e) \<and>
             (Config E t1 = Inr conf \<longrightarrow>
                (ID E t2 = Inl e \<longrightarrow>
                   unchanged e) \<and>
                (ID E t2 = Inr chainID \<longrightarrow>
                   (gocmd_ModTidy E t3 p = Some e \<longrightarrow>
                      unchanged e) \<and>
                   (gocmd_ModTidy E t3 p = None \<longrightarrow>
                      (gocmd_ModVerify E t4 p = Some e \<longrightarrow>
                         unchanged e) \<and>
                      (gocmd_ModVerify E t4 p = None \<longrightarrow>
                         (Binary E t5 = (binary, Some e) \<longrightarrow>
                            unchanged e) \<and>
                         (Binary E t5 = (binary, None) \<longrightarrow>
                            (Config E t6 = Inl e \<longrightarrow>
                               unchanged e) \<and>
                            (Config E t6 = Inr conf' \<longrightarrow>
                               (Build_Main conf' \<noteq> [] \<longrightarrow>
                                  (outputDir = [] \<longrightarrow>
                                     (os_RemoveAll E t7 (filepath_Join E p releaseDir) = Some e \<longrightarrow>
                                        unchanged e) \<and>
                                     (os_RemoveAll E t7 (filepath_Join E p releaseDir) = None \<longrightarrow>
                                        (os_MkdirAll E (t7 @ [EvRemoveAll (filepath_Join E p releaseDir)]) (filepath_Join E p releaseDir) = Some e \<longrightarrow>
                                           unchanged e))) \<and>
                                  (outputDir \<noteq> [] \<longrightarrow>
                                     (os_MkdirAll E t7 outputDir = Some e \<longrightarrow>
                                        unchanged e))) \<and>
                               (Build_Main conf' = [] \<longrightarrow>
                                  (goanalysis_DiscoverOneMain E t7 p = (mainPath, Some e) \<and> e \<noteq> ErrMultipleMainPackagesFound \<longrightarrow>
                                     unchanged e) \<and>
                                  (goanalysis_DiscoverOneMain E t7 p = (mainPath, None) \<longrightarrow>
                                     (outputDir = [] \<longrightarrow>
                                        (os_RemoveAll E t8 (filepath_Join E p releaseDir) = Some e \<longrightarrow>
                                           unchanged e) \<and>
                                        (os_RemoveAll E t8 (filepath_Join E p releaseDir) = None \<longrightarrow>
                                           (os_MkdirAll E (t8 @ [EvRemoveAll (filepath_Join E p releaseDir)]) (filepath_Join E p releaseDir) = Some e \<longrightarrow>
                                              unchanged e))) \<and>
                                     (outputDir \<noteq> [] \<longrightarrow>
                                        (os_MkdirAll E t8 outputDir = Some e \<longrightarrow>
                                           unchanged e)))))))))))) \<and>
      (let prefix' = (if prefix = [] then app_Name c else prefix)
       in
          (release_setup E c [] = (Inr (buildFlags, binary, mainPath), setupTrace) \<and>
          release_build E c outputDir prefix' pre [] = (Inr releasePath, ds, tr) \<and>
          (if targets = [] then [gocmd_BuildTarget E (runtime_GOOS E) (runtime_GOARCH E)] else targets) = pre @ t # post \<longrightarrow>
             (let opts = [(gocmd_EnvGOOS E, goos), (gocmd_EnvGOARCH E, goarch)];
                 tarPath = filepath_Join E releasePath (prefix' @ ''_'' @ goos @ ''_'' @ goarch @ ''.tar.gz'');
                 u1 = tr @ [EvParseTarget t];
                 u2 = u1 @ [EvMkdirTemp (Some out)];
                 u3 = u2 @ [EvBuildPath out binary mainPath buildFlags opts];
                 u4 = u3 @ [EvTar out];
                 u5 = u4 @ [EvCreate tarPath];
                 unchanged = (\<lambda>err. snd (fst (BuildRelease E c outputDir prefix targets)) = Some err)
              in
                 (gocmd_ParseTarget E t = Inl e \<longrightarrow>
                    unchanged e) \<and>
                 (gocmd_ParseTarget E t = Inr (goos, goarch) \<longrightarrow>
                    (os_MkdirTemp E u1 = Inl e \<longrightarrow>
                       unchanged e) \<and>
                    (os_MkdirTemp E u1 = Inr out \<longrightarrow>
                       (gocmd_BuildPath E u2 out binary mainPath buildFlags opts = Some e \<longrightarrow>
                          unchanged e) \<and>
                       (gocmd_BuildPath E u2 out binary mainPath buildFlags opts = None \<longrightarrow>
                          (archive_Tar E u3 out = Some e \<longrightarrow>
                             unchanged e) \<and>
                          (archive_Tar E u3 out = None \<longrightarrow>
                             (os_Create E u4 tarPath = Some e \<longrightarrow>
                                unchanged e) \<and>
                             (os_Create E u4 tarPath = None \<longrightarrow>
                                (io_Copy E u5 tarPath out = Some e \<longrightarrow>
                                   unchanged e))))))))) \<and>
      (release_build E c outputDir (if prefix = [] then app_Name c else prefix) (if targets = [] then [gocmd_BuildTarget E (runtime_GOOS E) (runtime_GOARCH E)] else targets) [] = (Inr releasePath, ds, tr) \<and>
      checksum_Sum E tr releasePath (filepath_Join E releasePath checksumTxt) = Some e \<longrightarrow>
         fst (BuildRelease E c outputDir prefix targets) = (releasePath, Some e)))"
proof -
  have build: "(let p = app_Path c;
        t1 = [EvSetup];
        t2 = t1 @ [EvGenerateAll];
        t3 = t2 @ [EvConfig];
        t4 = t3 @ [EvID];
        t5 = t4 @ [EvModTidy p];
        t6 = t5 @ [EvModVerify p];
        t7 = t6 @ [EvBinary];
        t8 = t7 @ [EvConfig];
        t9 = t8 @ [EvDiscoverOneMain p];
        returns = (\<lambda>err. fst (Build E c outputDir) = ([], Some err));
        surfaced = (\<lambda>err. if chain_has_ExitError err \<or> chain_has_ErrMultiple err
                      then CannotBuildAppError err else err)
     in
        (chain_setup E [] = Some e \<longrightarrow>
           returns e) \<and>
        (chain_setup E [] = None \<longrightarrow>
           (generateAll E t1 = Some e \<longrightarrow>
              returns (surfaced e)) \<and>
           (generateAll E t1 = None \<longrightarrow>
              (Config E t2 = Inl e \<longrightarrow>
                 returns (surfaced e)) \<and>
              (Config E t2 = Inr conf \<longrightarrow>
                 (ID E t3 = Inl e \<longrightarrow>
                    returns (surfaced e)) \<and>
                 (ID E t3 = Inr chainID \<longrightarrow>
                    (gocmd_ModTidy E t4 p = Some e \<longrightarrow>
                       returns (surfaced e)) \<and>
                    (gocmd_ModTidy E t4 p = None \<longrightarrow>
                       (gocmd_ModVerify E t5 p = Some e \<longrightarrow>
                          returns (surfaced e)) \<and>
                       (gocmd_ModVerify E t5 p = None \<longrightarrow>
                          (Binary E t6 = (binary, Some e) \<longrightarrow>
                             returns (surfaced e)) \<and>
                          (Binary E t6 = (binary, None) \<longrightarrow>
                             (Config E t7 = Inl e \<longrightarrow>
                                returns (surfaced e)) \<and>
                             (Config E t7 = Inr conf' \<longrightarrow>
                                (Build_Main conf' \<noteq> [] \<longrightarrow>
                                   (gocmd_BuildPath E t8 outputDir binary (filepath_Join E p (Build_Main conf')) (assembleFlags E c conf chainID) [] = Some e \<longrightarrow>
                                      returns (surfaced e))) \<and>
                                (Build_Main conf' = [] \<longrightarrow>
                                   (goanalysis_DiscoverOneMain E t8 p = (mainPath, Some ErrMultipleMainPackagesFound) \<longrightarrow>
                                      returns (CannotBuildAppError (Wrap ''specify the path to your chain's main package in your config.yml>build.main'' ErrMultipleMainPackagesFound))) \<and>
                                   (goanalysis_DiscoverOneMain E t8 p = (mainPath, Some e) \<and> e \<noteq> ErrMultipleMainPackagesFound \<longrightarrow>
                                      returns (surfaced e)) \<and>
                                   (goanalysis_DiscoverOneMain E t8 p = (mainPath, None) \<longrightarrow>
                                      (gocmd_BuildPath E t9 outputDir binary mainPath (assembleFlags E c conf chainID) [] = Some e \<longrightarrow>
                                         returns (surfaced e)))))))))))))"
    by (simp add: Let_def Build_def build_def build_steps_def preBuild_def discoverMain_def
          call_def reclassify_Some)
  have pre: "(let p = app_Path c;
        t1 = [EvSetup];
        t2 = t1 @ [EvConfig];
        t3 = t2 @ [EvID];
        t4 = t3 @ [EvModTidy p];
        t5 = t4 @ [EvModVerify p];
        t6 = t5 @ [EvBinary];
        t7 = t6 @ [EvConfig];
        t8 = t7 @ [EvDiscoverOneMain p];
        unchanged = (\<lambda>err. snd (fst (BuildRelease E c outputDir prefix targets)) = Some err)
     in
        (chain_setup E [] = Some e \<longrightarrow>
           unchanged e) \<and>
        (chain_setup E [] = None \<longrightarrow>
           (Config E t1 = Inl e \<longrightarrow>
              unchanged e) \<and>
           (Config E t1 = Inr conf \<longrightarrow>
              (ID E t2 = Inl e \<longrightarrow>
                 unchanged e) \<and>
              (ID E t2 = Inr chainID \<longrightarrow>
                 (gocmd_ModTidy E t3 p = Some e \<longrightarrow>
                    unchanged e) \<and>
                 (gocmd_ModTidy E t3 p = None \<longrightarrow>
                    (gocmd_ModVerify E t4 p = Some e \<longrightarrow>
                       unchanged e) \<and>
                    (gocmd_ModVerify E t4 p = None \<longrightarrow>
                       (Binary E t5 = (binary, Some e) \<longrightarrow>
                          unchanged e) \<and>
                       (Binary E t5 = (binary, None) \<longrightarrow>
                          (Config E t6 = Inl e \<longrightarrow>
                             unchanged e) \<and>
                          (Config E t6 = Inr conf' \<longrightarrow>
                             (Build_Main conf' \<noteq> [] \<longrightarrow>
                                (outputDir = [] \<longrightarrow>
                                   (os_RemoveAll E t7 (filepath_Join E p releaseDir) = Some e \<longrightarrow>
                                      unchanged e) \<and>
                                   (os_RemoveAll E t7 (filepath_Join E p releaseDir) = None \<longrightarrow>
                                      (os_MkdirAll E (t7 @ [EvRemoveAll (filepath_Join E p releaseDir)]) (filepath_Join E p releaseDir) = Some e \<longrightarrow>
                                         unchanged e))) \<and>
                                (outputDir \<noteq> [] \<longrightarrow>
                                   (os_MkdirAll E t7 outputDir = Some e \<longrightarrow>
                                      unchanged e))) \<and>
                             (Build_Main conf' = [] \<longrightarrow>
                                (goanalysis_DiscoverOneMain E t7 p = (mainPath, Some e) \<and> e \<noteq> ErrMultipleMainPackagesFound \<longrightarrow>
                                   unchanged e) \<and>
                                (goanalysis_DiscoverOneMain E t7 p = (mainPath, None) \<longrightarrow>
                                   (outputDir = [] \<longrightarrow>
                                      (os_RemoveAll E t8 (filepath_Join E p releaseDir) = Some e \<longrightarrow>
                                         unchanged e) \<and>
                                      (os_RemoveAll E t8 (filepath_Join E p releaseDir) = None \<longrightarrow>
                                         (os_MkdirAll E (t8 @ [EvRemoveAll (filepath_Join E p releaseDir)]) (filepath_Join E p releaseDir) = Some e \<longrightarrow>
                                            unchanged e))) \<and>
                                   (outputDir \<noteq> [] \<longrightarrow>
                                      (os_MkdirAll E t8 outputDir = Some e \<longrightarrow>
                                         unchanged e))))))))))))"
    by (simp add: Let_def BuildRelease_def release_build_def release_setup_def release_dir_def
          preBuild_def discoverMain_def call_def)
  have inner: "(let opts = [(gocmd_EnvGOOS E, goos), (gocmd_EnvGOARCH E, goarch)];
        tarPath = filepath_Join E releasePath (prefix' @ ''_'' @ goos @ ''_'' @ goarch @ ''.tar.gz'');
        u1 = tr @ [EvParseTarget t];
        u2 = u1 @ [EvMkdirTemp (Some out)];
        u3 = u2 @ [EvBuildPath out binary mainPath buildFlags opts];
        u4 = u3 @ [EvTar out];
        u5 = u4 @ [EvCreate tarPath];
        unchanged = (\<lambda>err. snd (fst (BuildRelease E c outputDir prefix targets)) = Some err)
     in
        (gocmd_ParseTarget E t = Inl e \<longrightarrow>
           unchanged e) \<and>
        (gocmd_ParseTarget E t = Inr (goos, goarch) \<longrightarrow>
           (os_MkdirTemp E u1 = Inl e \<longrightarrow>
              unchanged e) \<and>
           (os_MkdirTemp E u1 = Inr out \<longrightarrow>
              (gocmd_BuildPath E u2 out binary mainPath buildFlags opts = Some e \<longrightarrow>
                 unchanged e) \<and>
              (gocmd_BuildPath E u2 out binary mainPath buildFlags opts = None \<longrightarrow>
                 (archive_Tar E u3 out = Some e \<longrightarrow>
                    unchanged e) \<and>
                 (archive_Tar E u3 out = None \<longrightarrow>
                    (os_Create E u4 tarPath = Some e \<longrightarrow>
                       unchanged e) \<and>
                    (os_Create E u4 tarPath = None \<longrightarrow>
                       (io_Copy E u5 tarPath out = Some e \<longrightarrow>
                          unchanged e)))))))"
    if px: "prefix' = (if prefix = [] then app_Name c else prefix)"
      and s: "release_setup E c [] = (Inr (buildFlags, binary, mainPath), setupTrace)"
      and b: "release_build E c outputDir prefix' pre [] = (Inr releasePath, ds, tr)"
      and ts: "(if targets = [] then [gocmd_BuildTarget E (runtime_GOOS E) (runtime_GOARCH E)] else targets) = pre @ t # post"
    for prefix'
    by (simp add: Let_def BuildRelease_target_error [OF px s b ts] release_target_def call_def
          tarName_def)
  then have tgt: "(let prefix' = (if prefix = [] then app_Name c else prefix)
     in
        (release_setup E c [] = (Inr (buildFlags, binary, mainPath), setupTrace) \<and>
        release_build E c outputDir prefix' pre [] = (Inr releasePath, ds, tr) \<and>
        (if targets = [] then [gocmd_BuildTarget E (runtime_GOOS E) (runtime_GOARCH E)] else targets) = pre @ t # post \<longrightarrow>
           (let opts = [(gocmd_EnvGOOS E, goos), (gocmd_EnvGOARCH E, goarch)];
               tarPath = filepath_Join E releasePath (prefix' @ ''_'' @ goos @ ''_'' @ goarch @ ''.tar.gz'');
               u1 = tr @ [EvParseTarget t];
               u2 = u1 @ [EvMkdirTemp (Some out)];
               u3 = u2 @ [EvBuildPath out binary mainPath buildFlags opts];
               u4 = u3 @ [EvTar out];
               u5 = u4 @ [EvCreate tarPath];
               unchanged = (\<lambda>err. snd (fst (BuildRelease E c outputDir prefix targets)) = Some err)
            in
               (gocmd_ParseTarget E t = Inl e \<longrightarrow>
                  unchanged e) \<and>
               (gocmd_ParseTarget E t = Inr (goos, goarch) \<longrightarrow>
                  (os_MkdirTemp E u1 = Inl e \<longrightarrow>
                     unchanged e) \<and>
                  (os_MkdirTemp E u1 = Inr out \<longrightarrow>
                     (gocmd_BuildPath E u2 out binary mainPath buildFlags opts = Some e \<longrightarrow>
                        unchanged e) \<and>
                     (gocmd_BuildPath E u2 out binary mainPath buildFlags opts = None \<longrightarrow>
                        (archive_Tar E u3 out = Some e \<longrightarrow>
                           unchanged e) \<and>
                        (archive_Tar E u3 out = None \<longrightarrow>
                           (os_Create E u4 tarPath = Some e \<longrightarrow>
                              unchanged e) \<and>
                           (os_Create E u4 tarPath = None \<longrightarrow>
                              (io_Copy E u5 tarPath out = Some e \<longrightarrow>
                                 unchanged e)))))))))"
    unfolding Let_def by blast
  have chk: "(release_build E c outputDir (if prefix = [] then app_Name c else prefix) (if targets = [] then [gocmd_BuildTarget E (runtime_GOOS E) (runtime_GOARCH E)] else targets) [] = (Inr releasePath, ds, tr) \<and>
    checksum_Sum E tr releasePath (filepath_Join E releasePath checksumTxt) = Some e \<longrightarrow>
       fst (BuildRelease E c outputDir prefix targets) = (releasePath, Some e))"
    by (simp add: BuildRelease_def default_prefix_if default_targets_if call_def Let_def)
  from build pre tgt chk show ?thesis by blast
qed

theorem Build_reclassifies_witness:
  "gocmd_BuildPath compiler_fails
     [EvSetup, EvGenerateAll, EvConfig, EvID, EvModTidy ''/src/mars'', EvModVerify ''/src/mars'',
      EvBinary, EvConfig, EvDiscoverOneMain ''/src/mars'']
     ''bin'' ''marsd'' ''/src/mars/cmd/marsd'' mars_flags [] = Some (ExitError ''exit status 2'') \<and>
   fst (Build compiler_fails mars ''bin'') =
     ([], Some (CannotBuildAppError (ExitError ''exit status 2''))) \<and>
   os_Create create_fails
     [EvSetup, EvConfig, EvID, EvModTidy ''/src/mars'', EvModVerify ''/src/mars'', EvBinary,
      EvConfig, EvDiscoverOneMain ''/src/mars'', EvMkdirAll ''out'', EvParseTarget ''linux:amd64'',
      EvMkdirTemp (Some ''/tmp/''),
      EvBuildPath ''/tmp/'' ''marsd'' ''/src/mars/cmd/marsd'' mars_flags
        [(''GOOS'', ''linux''), (''GOARCH'', ''amd64'')],
      EvTar ''/tmp/'']
     ''out/foo_linux_amd64.tar.gz'' = Some (OtherError ''disk full'') \<and>
   snd (fst (BuildRelease create_fails mars ''out'' ''foo'' [''linux:amd64''])) =
     Some (OtherError ''disk full'')"
proof -
  have f: "\<And>h. chain_setup compiler_fails h = None"
    "\<And>h. generateAll compiler_fails h = None"
    "\<And>h. Config compiler_fails h = Inr mars_config"
    "\<And>h. ID compiler_fails h = Inr ''mars-1''"
    "\<And>h p. gocmd_ModTidy compiler_fails h p = None"
    "\<And>h p. gocmd_ModVerify compiler_fails h p = None"
    "\<And>h. Binary compiler_fails h = (''marsd'', None)"
    "\<And>h. goanalysis_DiscoverOneMain compiler_fails h ''/src/mars'' = (''/src/mars/cmd/marsd'', None)"
    "\<And>h out binary path flags opts.
       gocmd_BuildPath compiler_fails h out binary path flags opts = Some (ExitError ''exit status 2'')"
    "Build_Main mars_config = []"
    "app_Path mars = ''/src/mars''"
    by (simp_all add: compiler_fails_def host_def mars_def mars_config_def)
  have a: "fst (Build compiler_fails mars ''bin'') =
     ([], Some (CannotBuildAppError (ExitError ''exit status 2'')))"
    using Build_reclassifies
      [where E = compiler_fails and c = mars and outputDir = "''bin''"
         and e = "ExitError ''exit status 2''" and conf = mars_config and chainID = "''mars-1''"
         and binary = "''marsd''" and conf' = mars_config and mainPath = "''/src/mars/cmd/marsd''",
       THEN conjunct1]
    by (simp add: Let_def f)
  have g: "\<And>h p. os_Create create_fails h p = Some (OtherError ''disk full'')"
    "gocmd_ParseTarget create_fails ''linux:amd64'' = Inr (''linux'', ''amd64'')"
    "gocmd_EnvGOOS create_fails = ''GOOS''" "gocmd_EnvGOARCH create_fails = ''GOARCH''"
    "\<And>h out binary path flags opts. gocmd_BuildPath create_fails h out binary path flags opts = None"
    "\<And>h p. archive_Tar create_fails h p = None"
    "\<And>a b. filepath_Join create_fails a b = a @ ''/'' @ b"
    by (simp_all add: create_fails_def host_def ParseTarget_spec_def)
  have m: "os_MkdirTemp create_fails
     [EvSetup, EvConfig, EvID, EvModTidy ''/src/mars'', EvModVerify ''/src/mars'', EvBinary,
      EvConfig, EvDiscoverOneMain ''/src/mars'', EvMkdirAll ''out'', EvParseTarget ''linux:amd64''] =
     Inr ''/tmp/''"
    by code_simp
  have s: "release_setup create_fails mars [] =
     (Inr (mars_flags, ''marsd'', ''/src/mars/cmd/marsd''),
      [EvSetup, EvConfig, EvID, EvModTidy ''/src/mars'', EvModVerify ''/src/mars'', EvBinary,
       EvConfig, EvDiscoverOneMain ''/src/mars''])"
    by code_simp
  have b: "release_build create_fails mars ''out'' ''foo'' [] [] =
     (Inr ''out'', [],
      [EvSetup, EvConfig, EvID, EvModTidy ''/src/mars'', EvModVerify ''/src/mars'', EvBinary,
       EvConfig, EvDiscoverOneMain ''/src/mars'', EvMkdirAll ''out''])"
    by code_simp
  have k: "\<not> chain_has_ExitError (OtherError ''disk full'') \<and>
           \<not> chain_has_ErrMultiple (OtherError ''disk full'')"
    by simp
  have c: "snd (fst (BuildRelease create_fails mars ''out'' ''foo'' [''linux:amd64''])) =
     Some (OtherError ''disk full'')"
    using Build_reclassifies
      [where E = create_fails and c = mars and outputDir = "''out''" and prefix = "''foo''"
         and targets = "[''linux:amd64'']" and e = "OtherError ''disk full''"
         and buildFlags = mars_flags and binary = "''marsd''"
         and mainPath = "''/src/mars/cmd/marsd''"
         and setupTrace = "[EvSetup, EvConfig, EvID, EvModTidy ''/src/mars'',
                            EvModVerify ''/src/mars'', EvBinary, EvConfig,
                            EvDiscoverOneMain ''/src/mars'']"
         and pre = "[]" and t = "''linux:amd64''" and post = "[]" and releasePath = "''out''"
         and ds = "[]"
         and tr = "[EvSetup, EvConfig, EvID, EvModTidy ''/src/mars'', EvModVerify ''/src/mars'',
                    EvBinary, EvConfig, EvDiscoverOneMain ''/src/mars'', EvMkdirAll ''out'']"
         and goos = "''linux''" and goarch = "''amd64''" and out = "''/tmp/''",
       THEN conjunct2, rule_format, OF k, THEN conjunct2, THEN conjunct1]
      s b
    by (simp add: Let_def g m)
  from a c f g show ?thesis by simp
qed

text \<open>
  Claim C1 as stated fails at two inputs. BuildRelease has no deferred function: when
  the compiler fails with an exit error for the one target of a release, the exit error
  itself is returned, not a \<open>CannotBuildAppError\<close>. And in Build a dependency error is not
  returned unchanged when it is an exit error: a failing \<^verbatim>\<open>go mod tidy\<close> comes back as
  \<open>CannotBuildAppError\<close>.
\<close>

theorem C1_counterexample:
  "snd (fst (BuildRelease (host\<lparr>gocmd_BuildPath := (\<lambda>h out binary path flags opts. Some (ExitError ''exit status 2''))\<rparr>) mars [] [] [])) = Some (ExitError ''exit status 2'') \<and>
   \<not> is_CannotBuildAppError (snd (fst (BuildRelease (host\<lparr>gocmd_BuildPath := (\<lambda>h out binary path flags opts. Some (ExitError ''exit status 2''))\<rparr>) mars [] [] []))) \<and>
   gocmd_ModTidy (host\<lparr>gocmd_ModTidy := (\<lambda>h p. Some (ExitError ''exit status 1''))\<rparr>) [EvSetup, EvGenerateAll, EvConfig, EvID] ''/src/mars'' = Some (ExitError ''exit status 1'') \<and>
   snd (fst (Build (host\<lparr>gocmd_ModTidy := (\<lambda>h p. Some (ExitError ''exit status 1''))\<rparr>) mars ''bin'')) =
     Some (CannotBuildAppError (ExitError ''exit status 1''))"
  by code_simp

section \<open>Several main packages\<close>

text \<open>
  Claim C6. Let the configuration set no \<^verbatim>\<open>build.main\<close> and let the scan of the source tree
  report several main packages. Then \<open>discoverMain\<close> fails with the sentinel wrapped in a
  message that asks for \<^verbatim>\<open>build.main\<close> in the configuration, and Build, once it reaches
  entry-point resolution (setup, code generation, flag assembly and binary name have
  succeeded), returns a \<open>CannotBuildAppError\<close> that carries this wrapped error.
\<close>

theorem Build_multiple_mains:
  assumes "chain_setup E [] = None"
    and "generateAll E [EvSetup] = None"
    and "preBuild E c [EvSetup, EvGenerateAll] = (Inr buildFlags, tr)"
    and "Binary E tr = (binary, None)"
    and "Config E (tr @ [EvBinary]) = Inr conf"
    and "Build_Main conf = []"
    and "goanalysis_DiscoverOneMain E (tr @ [EvBinary, EvConfig]) (app_Path c) =
           (p, Some ErrMultipleMainPackagesFound)"
  shows "discoverMain E c (app_Path c) (tr @ [EvBinary]) =
           (([], Some (Wrap ''specify the path to your chain's main package in your config.yml>build.main''
                         ErrMultipleMainPackagesFound)),
            tr @ [EvBinary, EvConfig, EvDiscoverOneMain (app_Path c)]) \<and>
         Build E c output =
           (([], Some (CannotBuildAppError
                        (Wrap ''specify the path to your chain's main package in your config.yml>build.main''
                           ErrMultipleMainPackagesFound))),
            tr @ [EvBinary, EvConfig, EvDiscoverOneMain (app_Path c)])"
  using assms
  by (simp add: Build_def build_def build_steps_def discoverMain_def call_def reclassify_Some)

theorem Build_multiple_mains_witness:
  "Build (host\<lparr>goanalysis_DiscoverOneMain := (\<lambda>h p. ([], Some ErrMultipleMainPackagesFound))\<rparr>)
     mars ''bin'' =
     (([], Some (CannotBuildAppError
                  (Wrap ''specify the path to your chain's main package in your config.yml>build.main''
                     ErrMultipleMainPackagesFound))),
      [EvSetup, EvGenerateAll, EvConfig, EvID, EvModTidy ''/src/mars'', EvModVerify ''/src/mars'',
       EvBinary, EvConfig, EvDiscoverOneMain ''/src/mars''])"
proof -
  let ?E = "host\<lparr>goanalysis_DiscoverOneMain := (\<lambda>h p. ([], Some ErrMultipleMainPackagesFound))\<rparr>"
  let ?tr = "[EvSetup, EvGenerateAll, EvConfig, EvID, EvModTidy ''/src/mars'', EvModVerify ''/src/mars'']"
  let ?flags = "[''-mod'', ''readonly'', ''-ldflags'',
    ''-s -w -X github.com/cosmos/cosmos-sdk/version.Name=Mars -X github.com/cosmos/cosmos-sdk/version.AppName=marsd -X github.com/cosmos/cosmos-sdk/version.Version=v0.1.0 -X github.com/cosmos/cosmos-sdk/version.Commit=abc123 -X github.com/test/mars/cmd/marsd/cmd.ChainID=mars-1'']"
  have h1: "chain_setup ?E [] = None" by code_simp
  have h2: "generateAll ?E [EvSetup] = None" by code_simp
  have h3: "preBuild ?E mars [EvSetup, EvGenerateAll] = (Inr ?flags, ?tr)" by code_simp
  have h4: "Binary ?E ?tr = (''marsd'', None)" by code_simp
  have h5: "Config ?E (?tr @ [EvBinary]) = Inr mars_config" by code_simp
  have h6: "Build_Main mars_config = []" by code_simp
  have h7: "goanalysis_DiscoverOneMain ?E (?tr @ [EvBinary, EvConfig]) (app_Path mars) =
              ([], Some ErrMultipleMainPackagesFound)" by code_simp
  from Build_multiple_mains [OF h1 h2 h3 h4 h5 h6 h7, of "''bin''"]
  show ?thesis by (simp add: mars_def)
qed

section \<open>A target that does not parse\<close>

text \<open>
  Claim C2. In every iteration of the loop of BuildRelease the first call is the parse of
  the target token, so it comes before the compiler is run for that target. When the
  targets before \<open>t\<close> have been built and the token \<open>t\<close> does not parse, BuildRelease
  returns the empty path with the error of the parser. After the parse, the only calls
  are the deferred ones: files are closed and temporary directories of this run are
  removed. The targets after \<open>t\<close> play no part, and nothing is removed from the release
  directory.
\<close>

theorem BuildRelease_parse_failure:
  assumes "release_build E c output (default_prefix c prefix) pre [] = (Inr releasePath, ds, tr)"
    and "gocmd_ParseTarget E t = Inl e"
  shows "BuildRelease E c output prefix (pre @ t # post) =
           (([], Some e), tr @ EvParseTarget t # map deferred_event ds) \<and>
         (\<forall>ev \<in> set (map deferred_event ds).
            (\<exists>p. ev = EvClose p) \<or> (\<exists>out. ev = EvRemoveAll out \<and> out \<in> set (tempdirs tr))) \<and>
         (\<exists>evs. snd (snd (release_target E binary mainPath buildFlags releasePath' prefix' t' ds0 tr0)) =
                  tr0 @ EvParseTarget t' # evs)"
proof -
  have a: "BuildRelease E c output prefix (pre @ t # post) =
           (([], Some e), tr @ EvParseTarget t # map deferred_event ds)"
    by (simp add: BuildRelease_def default_targets_nonempty release_build_parse_fail [OF assms]
          run_deferred_eq)
  from release_build_frame [OF assms(1)] have dr: "deferred_removals ds = rev (tempdirs tr)"
    by simp
  have b: "\<forall>ev \<in> set (map deferred_event ds).
            (\<exists>p. ev = EvClose p) \<or> (\<exists>out. ev = EvRemoveAll out \<and> out \<in> set (tempdirs tr))"
  proof
    fix ev assume "ev \<in> set (map deferred_event ds)"
    then obtain d where d: "d \<in> set ds" "ev = deferred_event d" by auto
    show "(\<exists>p. ev = EvClose p) \<or> (\<exists>out. ev = EvRemoveAll out \<and> out \<in> set (tempdirs tr))"
    proof (cases d)
      case (DeferRemoveAll out)
      with d have "out \<in> set (deferred_removals ds)"
        by (simp add: deferred_removals_member)
      with dr DeferRemoveAll d show ?thesis by simp
    next
      case (DeferClose p)
      with d show ?thesis by simp
    qed
  qed
  obtain r1 ds1 tr1 where
    "release_target E binary mainPath buildFlags releasePath' prefix' t' ds0 tr0 = (r1, ds1, tr1)"
    by (cases "release_target E binary mainPath buildFlags releasePath' prefix' t' ds0 tr0") auto
  from release_target_frame [OF this] this
  have c: "\<exists>evs. snd (snd (release_target E binary mainPath buildFlags releasePath' prefix' t' ds0 tr0)) =
                  tr0 @ EvParseTarget t' # evs"
    by auto
  from a b c show ?thesis by blast
qed


theorem BuildRelease_parse_failure_witness:
  "release_build host mars ''out'' (default_prefix mars ''foo'') [''linux:amd64''] [] =
     (Inr ''out'',
      [DeferClose ''out/foo_linux_amd64.tar.gz'', DeferRemoveAll ''/tmp/''],
      [EvSetup, EvConfig, EvID, EvModTidy ''/src/mars'', EvModVerify ''/src/mars'', EvBinary,
       EvConfig, EvDiscoverOneMain ''/src/mars'', EvMkdirAll ''out'',
       EvParseTarget ''linux:amd64'', EvMkdirTemp (Some ''/tmp/''),
       EvBuildPath ''/tmp/'' ''marsd'' ''/src/mars/cmd/marsd''
         [''-mod'', ''readonly'', ''-ldflags'',
          ''-s -w -X github.com/cosmos/cosmos-sdk/version.Name=Mars -X github.com/cosmos/cosmos-sdk/version.AppName=marsd -X github.com/cosmos/cosmos-sdk/version.Version=v0.1.0 -X github.com/cosmos/cosmos-sdk/version.Commit=abc123 -X github.com/test/mars/cmd/marsd/cmd.ChainID=mars-1'']
         [(''GOOS'', ''linux''), (''GOARCH'', ''amd64'')],
       EvTar ''/tmp/'', EvCreate ''out/foo_linux_amd64.tar.gz'',
       EvCopy ''out/foo_linux_amd64.tar.gz'' ''/tmp/'',
       EvClose ''out/foo_linux_amd64.tar.gz'']) \<and>
   gocmd_ParseTarget host ''linux'' = Inl TargetParseError \<and>
   BuildRelease host mars ''out'' ''foo'' [''linux:amd64'', ''linux'', ''darwin:arm64''] =
     (([], Some TargetParseError),
      [EvSetup, EvConfig, EvID, EvModTidy ''/src/mars'', EvModVerify ''/src/mars'', EvBinary,
       EvConfig, EvDiscoverOneMain ''/src/mars'', EvMkdirAll ''out'',
       EvParseTarget ''linux:amd64'', EvMkdirTemp (Some ''/tmp/''),
       EvBuildPath ''/tmp/'' ''marsd'' ''/src/mars/cmd/marsd''
         [''-mod'', ''readonly'', ''-ldflags'',
          ''-s -w -X github.com/cosmos/cosmos-sdk/version.Name=Mars -X github.com/cosmos/cosmos-sdk/version.AppName=marsd -X github.com/cosmos/cosmos-sdk/version.Version=v0.1.0 -X github.com/cosmos/cosmos-sdk/version.Commit=abc123 -X github.com/test/mars/cmd/marsd/cmd.ChainID=mars-1'']
         [(''GOOS'', ''linux''), (''GOARCH'', ''amd64'')],
       EvTar ''/tmp/'', EvCreate ''out/foo_linux_amd64.tar.gz'',
       EvCopy ''out/foo_linux_amd64.tar.gz'' ''/tmp/'',
       EvClose ''out/foo_linux_amd64.tar.gz'',
       EvParseTarget ''linux'',
       EvClose ''out/foo_linux_amd64.tar.gz'', EvRemoveAll ''/tmp/''])"
proof -
  have h1: "release_build host mars ''out'' (default_prefix mars ''foo'') [''linux:amd64''] [] =
     (Inr ''out'',
      [DeferClose ''out/foo_linux_amd64.tar.gz'', DeferRemoveAll ''/tmp/''],
      [EvSetup, EvConfig, EvID, EvModTidy ''/src/mars'', EvModVerify ''/src/mars'', EvBinary,
       EvConfig, EvDiscoverOneMain ''/src/mars'', EvMkdirAll ''out'',
       EvParseTarget ''linux:amd64'', EvMkdirTemp (Some ''/tmp/''),
       EvBuildPath ''/tmp/'' ''marsd'' ''/src/mars/cmd/marsd''
         [''-mod'', ''readonly'', ''-ldflags'',
          ''-s -w -X github.com/cosmos/cosmos-sdk/version.Name=Mars -X github.com/cosmos/cosmos-sdk/version.AppName=marsd -X github.com/cosmos/cosmos-sdk/version.Version=v0.1.0 -X github.com/cosmos/cosmos-sdk/version.Commit=abc123 -X github.com/test/mars/cmd/marsd/cmd.ChainID=mars-1'']
         [(''GOOS'', ''linux''), (''GOARCH'', ''amd64'')],
       EvTar ''/tmp/'', EvCreate ''out/foo_linux_amd64.tar.gz'',
       EvCopy ''out/foo_linux_amd64.tar.gz'' ''/tmp/'',
       EvClose ''out/foo_linux_amd64.tar.gz''])"
    by code_simp
  have h2: "gocmd_ParseTarget host ''linux'' = Inl TargetParseError"
    by code_simp
  from BuildRelease_parse_failure [OF h1 h2, of "[''darwin:arm64'']"] h1 h2
  show ?thesis by simp
qed

section \<open>The archives of a release\<close>



section \<open>Defaults of BuildRelease\<close>

text \<open>
  Claim C4. BuildRelease with the empty prefix is BuildRelease with the name of the
  project as prefix, and BuildRelease with no targets is BuildRelease with the single
  target that \<^verbatim>\<open>gocmd.BuildTarget\<close> makes of the operating system and architecture of the
  host. A run with no targets that reaches the loop, and in which the collaborators
  answer without error for the host target, makes exactly the calls of one iteration,
  for the host target, writes the archive whose name starts with the prefix (the name
  of the project when the prefix is empty) and then writes the checksum. Whatever the
  collaborators answer, a run with no targets parses no token but that of the host, and
  at most once. For the target token of the spec the parser gives back the pair of the
  host, as long as neither part contains the separator.
\<close>

theorem BuildRelease_defaults:
  "BuildRelease E c outputDir [] targets = BuildRelease E c outputDir (app_Name c) targets \<and>
   BuildRelease E c outputDir prefix [] =
     BuildRelease E c outputDir prefix [gocmd_BuildTarget E (runtime_GOOS E) (runtime_GOARCH E)] \<and>
   (release_setup E c [] = (Inr (buildFlags, binary, mainPath), setupTrace) \<and>
   release_dir E c outputDir setupTrace = (Inr releasePath, tr) \<longrightarrow>
      (let t = gocmd_BuildTarget E (runtime_GOOS E) (runtime_GOARCH E);
          prefix' = (if prefix = [] then app_Name c else prefix);
          opts = [(gocmd_EnvGOOS E, goos), (gocmd_EnvGOARCH E, goarch)];
          tarPath = filepath_Join E releasePath (prefix' @ ''_'' @ goos @ ''_'' @ goarch @ ''.tar.gz'');
          u1 = tr @ [EvParseTarget t];
          u2 = u1 @ [EvMkdirTemp (Some out)];
          u3 = u2 @ [EvBuildPath out binary mainPath buildFlags opts];
          u4 = u3 @ [EvTar out];
          u5 = u4 @ [EvCreate tarPath];
          u6 = u5 @ [EvCopy tarPath out]
       in
          (gocmd_ParseTarget E t = Inr (goos, goarch) \<and>
          os_MkdirTemp E u1 = Inr out \<and>
          gocmd_BuildPath E u2 out binary mainPath buildFlags opts = None \<and>
          archive_Tar E u3 out = None \<and>
          os_Create E u4 tarPath = None \<and>
          io_Copy E u5 tarPath out = None \<longrightarrow>
             BuildRelease E c outputDir prefix [] =
               ((releasePath, checksum_Sum E (u6 @ [EvClose tarPath]) releasePath (filepath_Join E releasePath checksumTxt)),
                u6 @ [EvClose tarPath, EvChecksumSum releasePath (filepath_Join E releasePath checksumTxt),
                      EvClose tarPath, EvRemoveAll out])))) \<and>
   (\<exists>k. target_tokens (snd (BuildRelease E c outputDir prefix [])) =
         take k [gocmd_BuildTarget E (runtime_GOOS E) (runtime_GOARCH E)]) \<and>
   (CHR '':'' \<notin> set hostOS \<and> CHR '':'' \<notin> set hostArch \<longrightarrow>
      ParseTarget_spec (BuildTarget_spec hostOS hostArch) = Inr (hostOS, hostArch))"
proof -
  have e1: "BuildRelease E c outputDir [] targets = BuildRelease E c outputDir (app_Name c) targets"
    by (simp add: BuildRelease_def default_prefix_def)
  have e2: "BuildRelease E c outputDir prefix [] =
      BuildRelease E c outputDir prefix [gocmd_BuildTarget E (runtime_GOOS E) (runtime_GOARCH E)]"
    by (simp add: BuildRelease_def default_targets_def)
  have e3: "(let t = gocmd_BuildTarget E (runtime_GOOS E) (runtime_GOARCH E);
        prefix' = (if prefix = [] then app_Name c else prefix);
        opts = [(gocmd_EnvGOOS E, goos), (gocmd_EnvGOARCH E, goarch)];
        tarPath = filepath_Join E releasePath (prefix' @ ''_'' @ goos @ ''_'' @ goarch @ ''.tar.gz'');
        u1 = tr @ [EvParseTarget t];
        u2 = u1 @ [EvMkdirTemp (Some out)];
        u3 = u2 @ [EvBuildPath out binary mainPath buildFlags opts];
        u4 = u3 @ [EvTar out];
        u5 = u4 @ [EvCreate tarPath];
        u6 = u5 @ [EvCopy tarPath out]
     in
        (gocmd_ParseTarget E t = Inr (goos, goarch) \<and>
        os_MkdirTemp E u1 = Inr out \<and>
        gocmd_BuildPath E u2 out binary mainPath buildFlags opts = None \<and>
        archive_Tar E u3 out = None \<and>
        os_Create E u4 tarPath = None \<and>
        io_Copy E u5 tarPath out = None \<longrightarrow>
           BuildRelease E c outputDir prefix [] =
             ((releasePath, checksum_Sum E (u6 @ [EvClose tarPath]) releasePath (filepath_Join E releasePath checksumTxt)),
              u6 @ [EvClose tarPath, EvChecksumSum releasePath (filepath_Join E releasePath checksumTxt),
                    EvClose tarPath, EvRemoveAll out])))"
    if s: "release_setup E c [] = (Inr (buildFlags, binary, mainPath), setupTrace)"
      and d: "release_dir E c outputDir setupTrace = (Inr releasePath, tr)"
    by (simp add: Let_def BuildRelease_def default_prefix_if default_targets_if release_build_def
          s d release_target_def call_def tarName_def)
  have e4: "(\<exists>k. target_tokens (snd (BuildRelease E c outputDir prefix [])) =
          take k [gocmd_BuildTarget E (runtime_GOOS E) (runtime_GOARCH E)])"
  proof -
    obtain r ds tr where
      h: "release_build E c outputDir (default_prefix c prefix) (default_targets E []) [] =
            (r, ds, tr)"
      by (cases "release_build E c outputDir (default_prefix c prefix) (default_targets E []) []")
         auto
    from release_build_tokens [OF h] obtain k where
      "target_tokens tr = take k (default_targets E [])"
      by blast
    with BuildRelease_trace [OF h] show ?thesis
      by (cases r) (auto simp: target_tokens_deferred default_targets_if)
  qed
  have e5: "(CHR '':'' \<notin> set hostOS \<and> CHR '':'' \<notin> set hostArch \<longrightarrow>
       ParseTarget_spec (BuildTarget_spec hostOS hostArch) = Inr (hostOS, hostArch))"
    using ParseTarget_BuildTarget_spec by blast
  from e1 e2 e3 e4 e5 show ?thesis by blast
qed

theorem BuildRelease_defaults_witness:
  "BuildRelease host mars [] [] [] = BuildRelease host mars [] ''mars'' [''linux:amd64''] \<and>
   release_setup host mars [] =
     (Inr (mars_flags, ''marsd'', ''/src/mars/cmd/marsd''),
      [EvSetup, EvConfig, EvID, EvModTidy ''/src/mars'', EvModVerify ''/src/mars'', EvBinary,
       EvConfig, EvDiscoverOneMain ''/src/mars'']) \<and>
   BuildRelease host mars [] [] [] =
     ((''/src/mars/release'', None),
      [EvSetup, EvConfig, EvID, EvModTidy ''/src/mars'', EvModVerify ''/src/mars'', EvBinary,
       EvConfig, EvDiscoverOneMain ''/src/mars'', EvRemoveAll ''/src/mars/release'',
       EvMkdirAll ''/src/mars/release'', EvParseTarget ''linux:amd64'',
       EvMkdirTemp (Some ''/tmp/''),
       EvBuildPath ''/tmp/'' ''marsd'' ''/src/mars/cmd/marsd'' mars_flags
         [(''GOOS'', ''linux''), (''GOARCH'', ''amd64'')],
       EvTar ''/tmp/'', EvCreate ''/src/mars/release/mars_linux_amd64.tar.gz'',
       EvCopy ''/src/mars/release/mars_linux_amd64.tar.gz'' ''/tmp/'',
       EvClose ''/src/mars/release/mars_linux_amd64.tar.gz'',
       EvChecksumSum ''/src/mars/release'' ''/src/mars/release/checksum.txt'',
       EvClose ''/src/mars/release/mars_linux_amd64.tar.gz'', EvRemoveAll ''/tmp/'']) \<and>
   ParseTarget_spec (BuildTarget_spec ''linux'' ''amd64'') = Inr (''linux'', ''amd64'')"
proof -
  have g: "gocmd_ParseTarget host ''linux:amd64'' = Inr (''linux'', ''amd64'')"
    "gocmd_BuildTarget host (runtime_GOOS host) (runtime_GOARCH host) = ''linux:amd64''"
    "gocmd_EnvGOOS host = ''GOOS''" "gocmd_EnvGOARCH host = ''GOARCH''"
    "\<And>h out binary path flags opts. gocmd_BuildPath host h out binary path flags opts = None"
    "\<And>h p. archive_Tar host h p = None"
    "\<And>h p. os_Create host h p = None"
    "\<And>h dst src. io_Copy host h dst src = None"
    "\<And>h d p. checksum_Sum host h d p = None"
    "\<And>a b. filepath_Join host a b = a @ ''/'' @ b"
    "app_Name mars = ''mars''"
    "checksumTxt = ''checksum.txt''"
    by (simp_all add: host_def mars_def ParseTarget_spec_def BuildTarget_spec_def checksumTxt_def)
  have m: "os_MkdirTemp host
     [EvSetup, EvConfig, EvID, EvModTidy ''/src/mars'', EvModVerify ''/src/mars'', EvBinary,
      EvConfig, EvDiscoverOneMain ''/src/mars'', EvRemoveAll ''/src/mars/release'',
      EvMkdirAll ''/src/mars/release'', EvParseTarget ''linux:amd64''] = Inr ''/tmp/''"
    by code_simp
  have s: "release_setup host mars [] =
     (Inr (mars_flags, ''marsd'', ''/src/mars/cmd/marsd''),
      [EvSetup, EvConfig, EvID, EvModTidy ''/src/mars'', EvModVerify ''/src/mars'', EvBinary,
       EvConfig, EvDiscoverOneMain ''/src/mars''])"
    by code_simp
  have d: "release_dir host mars []
      [EvSetup, EvConfig, EvID, EvModTidy ''/src/mars'', EvModVerify ''/src/mars'', EvBinary,
       EvConfig, EvDiscoverOneMain ''/src/mars''] =
     (Inr ''/src/mars/release'',
      [EvSetup, EvConfig, EvID, EvModTidy ''/src/mars'', EvModVerify ''/src/mars'', EvBinary,
       EvConfig, EvDiscoverOneMain ''/src/mars'', EvRemoveAll ''/src/mars/release'',
       EvMkdirAll ''/src/mars/release''])"
    by code_simp
  note inst = BuildRelease_defaults
      [where E = host and c = mars and outputDir = "[]" and prefix = "[]" and targets = "[]"
         and buildFlags = mars_flags and binary = "''marsd''"
         and mainPath = "''/src/mars/cmd/marsd''"
         and setupTrace = "[EvSetup, EvConfig, EvID, EvModTidy ''/src/mars'',
                            EvModVerify ''/src/mars'', EvBinary, EvConfig,
                            EvDiscoverOneMain ''/src/mars'']"
         and releasePath = "''/src/mars/release''"
         and tr = "[EvSetup, EvConfig, EvID, EvModTidy ''/src/mars'', EvModVerify ''/src/mars'',
                    EvBinary, EvConfig, EvDiscoverOneMain ''/src/mars'',
                    EvRemoveAll ''/src/mars/release'', EvMkdirAll ''/src/mars/release'']"
         and goos = "''linux''" and goarch = "''amd64''" and out = "''/tmp/''"
         and hostOS = "''linux''" and hostArch = "''amd64''"]
  have a1: "BuildRelease host mars [] [] [] = BuildRelease host mars [] [] [''linux:amd64'']"
    using inst [THEN conjunct2, THEN conjunct1] by (simp add: g)
  have a2: "BuildRelease host mars [] [] [''linux:amd64''] =
     BuildRelease host mars [] ''mars'' [''linux:amd64'']"
    using BuildRelease_defaults
      [where E = host and c = mars and outputDir = "[]" and targets = "[''linux:amd64'']",
       THEN conjunct1]
    by (simp add: g)
  have a: "BuildRelease host mars [] [] [] = BuildRelease host mars [] ''mars'' [''linux:amd64'']"
    using a1 a2 by (rule trans)
  have b: "BuildRelease host mars [] [] [] =
     ((''/src/mars/release'', None),
      [EvSetup, EvConfig, EvID, EvModTidy ''/src/mars'', EvModVerify ''/src/mars'', EvBinary,
       EvConfig, EvDiscoverOneMain ''/src/mars'', EvRemoveAll ''/src/mars/release'',
       EvMkdirAll ''/src/mars/release'', EvParseTarget ''linux:amd64'',
       EvMkdirTemp (Some ''/tmp/''),
       EvBuildPath ''/tmp/'' ''marsd'' ''/src/mars/cmd/marsd'' mars_flags
         [(''GOOS'', ''linux''), (''GOARCH'', ''amd64'')],
       EvTar ''/tmp/'', EvCreate ''/src/mars/release/mars_linux_amd64.tar.gz'',
       EvCopy ''/src/mars/release/mars_linux_amd64.tar.gz'' ''/tmp/'',
       EvClose ''/src/mars/release/mars_linux_amd64.tar.gz'',
       EvChecksumSum ''/src/mars/release'' ''/src/mars/release/checksum.txt'',
       EvClose ''/src/mars/release/mars_linux_amd64.tar.gz'', EvRemoveAll ''/tmp/''])"
    using inst [THEN conjunct2, THEN conjunct2, THEN conjunct1] s d
    by (simp add: Let_def g m)
  have e: "ParseTarget_spec (BuildTarget_spec ''linux'' ''amd64'') = Inr (''linux'', ''amd64'')"
    using inst [THEN conjunct2, THEN conjunct2, THEN conjunct2, THEN conjunct2]
    by simp
  from a s b e show ?thesis by simp
qed

section \<open>The release directory\<close>



section \<open>Temporary directories\<close>

text \<open>
  Claim C9. In every iteration, whatever its outcome, the removal of the temporary
  directory that the iteration created is among the deferred calls when the iteration
  ends. Every run of BuildRelease, successful or not, ends with the deferred calls: after
  them no temporary directory is created, and they call \<^verbatim>\<open>os.RemoveAll\<close> on exactly the
  temporary directories that the run created, the latest first.
\<close>

theorem BuildRelease_tempdirs:
  "(release_target E binary mainPath buildFlags releasePath prefix t ds tr = (r, ds', tr') \<longrightarrow>
      deferred_removals ds' = rev (tempdirs (drop (length tr) tr')) @ deferred_removals ds) \<and>
   (\<exists>body cleanup.
      snd (BuildRelease E c output prefix0 targets0) = body @ cleanup \<and>
      tempdirs cleanup = [] \<and> removals cleanup = rev (tempdirs body))"
proof -
  have a: "release_target E binary mainPath buildFlags releasePath prefix t ds tr = (r, ds', tr') \<longrightarrow>
      deferred_removals ds' = rev (tempdirs (drop (length tr) tr')) @ deferred_removals ds"
  proof
    assume "release_target E binary mainPath buildFlags releasePath prefix t ds tr = (r, ds', tr')"
    from release_target_frame [OF this]
    show "deferred_removals ds' = rev (tempdirs (drop (length tr) tr')) @ deferred_removals ds"
      by auto
  qed
  obtain r0 ds0 tr3 where
    h: "release_build E c output (default_prefix c prefix0) (default_targets E targets0) [] = (r0, ds0, tr3)"
    by (cases "release_build E c output (default_prefix c prefix0) (default_targets E targets0) []") auto
  let ?body = "tr3 @ (case r0 of Inl e \<Rightarrow> []
                 | Inr releasePath \<Rightarrow>
                     [EvChecksumSum releasePath (filepath_Join E releasePath checksumTxt)])"
  from release_build_frame [OF h] have f: "deferred_removals ds0 = rev (tempdirs tr3)"
    by simp
  have "snd (BuildRelease E c output prefix0 targets0) = ?body @ map deferred_event ds0"
    using BuildRelease_trace [OF h] by simp
  moreover have "tempdirs (map deferred_event ds0) = []"
    by (rule tempdirs_deferred)
  moreover have "removals (map deferred_event ds0) = rev (tempdirs ?body)"
    using f by (cases r0) (simp_all add: removals_deferred)
  ultimately have b: "\<exists>body cleanup.
      snd (BuildRelease E c output prefix0 targets0) = body @ cleanup \<and>
      tempdirs cleanup = [] \<and> removals cleanup = rev (tempdirs body)"
    by blast
  from a b show ?thesis by blast
qed

theorem BuildRelease_tempdirs_witness:
  "release_target compiler_fails ''marsd'' ''/src/mars/cmd/marsd'' [] ''out'' ''foo'' ''linux:amd64'' [] [] =
     (Some (ExitError ''exit status 2''), [DeferRemoveAll ''/tmp/''],
      [EvParseTarget ''linux:amd64'', EvMkdirTemp (Some ''/tmp/''),
       EvBuildPath ''/tmp/'' ''marsd'' ''/src/mars/cmd/marsd'' [] [(''GOOS'', ''linux''), (''GOARCH'', ''amd64'')]]) \<and>
   deferred_removals [DeferRemoveAll ''/tmp/''] = [''/tmp/''] \<and>
   (\<exists>body cleanup.
      snd (BuildRelease compiler_fails mars ''out'' ''foo'' [''linux:amd64'']) = body @ cleanup \<and>
      tempdirs cleanup = [] \<and> removals cleanup = rev (tempdirs body)) \<and>
   tempdirs (snd (BuildRelease compiler_fails mars ''out'' ''foo'' [''linux:amd64''])) = [''/tmp/''] \<and>
   removals (snd (BuildRelease compiler_fails mars ''out'' ''foo'' [''linux:amd64''])) = [''/tmp/'']"
proof -
  have h: "release_target compiler_fails ''marsd'' ''/src/mars/cmd/marsd'' [] ''out'' ''foo'' ''linux:amd64'' [] [] =
     (Some (ExitError ''exit status 2''), [DeferRemoveAll ''/tmp/''],
      [EvParseTarget ''linux:amd64'', EvMkdirTemp (Some ''/tmp/''),
       EvBuildPath ''/tmp/'' ''marsd'' ''/src/mars/cmd/marsd'' [] [(''GOOS'', ''linux''), (''GOARCH'', ''amd64'')]])"
    by code_simp
  have t: "tempdirs (snd (BuildRelease compiler_fails mars ''out'' ''foo'' [''linux:amd64''])) = [''/tmp/'']"
    "removals (snd (BuildRelease compiler_fails mars ''out'' ''foo'' [''linux:amd64''])) = [''/tmp/'']"
    by code_simp+
  from BuildRelease_tempdirs
    [of compiler_fails "''marsd''" "''/src/mars/cmd/marsd''" "[]" "''out''" "''foo''" "''linux:amd64''"
        "[]" "[]" "Some (ExitError ''exit status 2'')" "[DeferRemoveAll ''/tmp/'']"
        "[EvParseTarget ''linux:amd64'', EvMkdirTemp (Some ''/tmp/''),
          EvBuildPath ''/tmp/'' ''marsd'' ''/src/mars/cmd/marsd'' [] [(''GOOS'', ''linux''), (''GOARCH'', ''amd64'')]]"
        mars "''out''" "''foo''" "[''linux:amd64'']"]
    h t
  show ?thesis by simp
qed

section \<open>The checksum\<close>

text \<open>
  Claim C10. When a call before the checksum fails (setup, the configuration, the chain
  identifier, \<^verbatim>\<open>go mod tidy\<close>, \<^verbatim>\<open>go mod verify\<close>, the binary name, the scan for the main
  package, the reset or the creation of the release directory, or for a target that the
  loop reaches: the parser, the temporary directory, the compiler, the archiver,
  \<^verbatim>\<open>os.Create\<close> or \<^verbatim>\<open>io.Copy\<close>), BuildRelease returns the empty path with the error of that
  call and \<^verbatim>\<open>checksum.Sum\<close> is not called. When all of this has succeeded,
  \<^verbatim>\<open>checksum.Sum\<close> is called once, after the calls for the targets and before the
  deferred calls, and BuildRelease returns the release directory together with the
  answer of \<^verbatim>\<open>checksum.Sum\<close>, also when that answer is an error. The release directory is
  the output directory or, for the empty output, the join of the source root with
  \<^verbatim>\<open>release\<close>; it is not empty when that join is not. And whenever \<^verbatim>\<open>checksum.Sum\<close> has
  been called, every target was reached and each collaborator answered without error
  for it.
\<close>

theorem BuildRelease_checksum:
  "(let p = app_Path c;
       t1 = [EvSetup];
       t2 = t1 @ [EvConfig];
       t3 = t2 @ [EvID];
       t4 = t3 @ [EvModTidy p];
       t5 = t4 @ [EvModVerify p];
       t6 = t5 @ [EvBinary];
       t7 = t6 @ [EvConfig];
       t8 = t7 @ [EvDiscoverOneMain p];
       fails = (\<lambda>err. fst (BuildRelease E c outputDir prefix targets) = ([], Some err) \<and>
                         filter is_ChecksumSum (snd (BuildRelease E c outputDir prefix targets)) = [])
    in
       (chain_setup E [] = Some e \<longrightarrow>
          fails e) \<and>
       (chain_setup E [] = None \<longrightarrow>
          (Config E t1 = Inl e \<longrightarrow>
             fails e) \<and>
          (Config E t1 = Inr conf \<longrightarrow>
             (ID E t2 = Inl e \<longrightarrow>
                fails e) \<and>
             (ID E t2 = Inr chainID \<longrightarrow>
                (gocmd_ModTidy E t3 p = Some e \<longrightarrow>
                   fails e) \<and>
                (gocmd_ModTidy E t3 p = None \<longrightarrow>
                   (gocmd_ModVerify E t4 p = Some e \<longrightarrow>
                      fails e) \<and>
                   (gocmd_ModVerify E t4 p = None \<longrightarrow>
                      (Binary E t5 = (binary, Some e) \<longrightarrow>
                         fails e) \<and>
                      (Binary E t5 = (binary, None) \<longrightarrow>
                         (Config E t6 = Inl e \<longrightarrow>
                            fails e) \<and>
                         (Config E t6 = Inr conf' \<longrightarrow>
                            (Build_Main conf' \<noteq> [] \<longrightarrow>
                               (outputDir = [] \<longrightarrow>
                                  (os_RemoveAll E t7 (filepath_Join E p releaseDir) = Some e \<longrightarrow>
                                     fails e) \<and>
                                  (os_RemoveAll E t7 (filepath_Join E p releaseDir) = None \<longrightarrow>
                                     (os_MkdirAll E (t7 @ [EvRemoveAll (filepath_Join E p releaseDir)]) (filepath_Join E p releaseDir) = Some e \<longrightarrow>
                                        fails e))) \<and>
                               (outputDir \<noteq> [] \<longrightarrow>
                                  (os_MkdirAll E t7 outputDir = Some e \<longrightarrow>
                                     fails e))) \<and>
                            (Build_Main conf' = [] \<longrightarrow>
                               (goanalysis_DiscoverOneMain E t7 p = (mainPath, Some ErrMultipleMainPackagesFound) \<longrightarrow>
                                  fails (Wrap ''specify the path to your chain's main package in your config.yml>build.main'' ErrMultipleMainPackagesFound)) \<and>
                               (goanalysis_DiscoverOneMain E t7 p = (mainPath, Some e) \<and> e \<noteq> ErrMultipleMainPackagesFound \<longrightarrow>
                                  fails e) \<and>
                               (goanalysis_DiscoverOneMain E t7 p = (mainPath, None) \<longrightarrow>
                                  (outputDir = [] \<longrightarrow>
                                     (os_RemoveAll E t8 (filepath_Join E p releaseDir) = Some e \<longrightarrow>
                                        fails e) \<and>
                                     (os_RemoveAll E t8 (filepath_Join E p releaseDir) = None \<longrightarrow>
                                        (os_MkdirAll E (t8 @ [EvRemoveAll (filepath_Join E p releaseDir)]) (filepath_Join E p releaseDir) = Some e \<longrightarrow>
                                           fails e))) \<and>
                                  (outputDir \<noteq> [] \<longrightarrow>
                                     (os_MkdirAll E t8 outputDir = Some e \<longrightarrow>
                                        fails e)))))))))))) \<and>
   (let prefix' = (if prefix = [] then app_Name c else prefix)
    in
       (release_setup E c [] = (Inr (buildFlags, binary, mainPath), setupTrace) \<and>
       release_build E c outputDir prefix' pre [] = (Inr releasePath, ds, tr) \<and>
       (if targets = [] then [gocmd_BuildTarget E (runtime_GOOS E) (runtime_GOARCH E)] else targets) = pre @ t # post \<longrightarrow>
          (let opts = [(gocmd_EnvGOOS E, goos), (gocmd_EnvGOARCH E, goarch)];
              tarPath = filepath_Join E releasePath (prefix' @ ''_'' @ goos @ ''_'' @ goarch @ ''.tar.gz'');
              u1 = tr @ [EvParseTarget t];
              u2 = u1 @ [EvMkdirTemp (Some out)];
              u3 = u2 @ [EvBuildPath out binary mainPath buildFlags opts];
              u4 = u3 @ [EvTar out];
              u5 = u4 @ [EvCreate tarPath];
              fails = (\<lambda>err. fst (BuildRelease E c outputDir prefix targets) = ([], Some err) \<and>
                                filter is_ChecksumSum (snd (BuildRelease E c outputDir prefix targets)) = [])
           in
              (gocmd_ParseTarget E t = Inl e \<longrightarrow>
                 fails e) \<and>
              (gocmd_ParseTarget E t = Inr (goos, goarch) \<longrightarrow>
                 (os_MkdirTemp E u1 = Inl e \<longrightarrow>
                    fails e) \<and>
                 (os_MkdirTemp E u1 = Inr out \<longrightarrow>
                    (gocmd_BuildPath E u2 out binary mainPath buildFlags opts = Some e \<longrightarrow>
                       fails e) \<and>
                    (gocmd_BuildPath E u2 out binary mainPath buildFlags opts = None \<longrightarrow>
                       (archive_Tar E u3 out = Some e \<longrightarrow>
                          fails e) \<and>
                       (archive_Tar E u3 out = None \<longrightarrow>
                          (os_Create E u4 tarPath = Some e \<longrightarrow>
                             fails e) \<and>
                          (os_Create E u4 tarPath = None \<longrightarrow>
                             (io_Copy E u5 tarPath out = Some e \<longrightarrow>
                                fails e))))))))) \<and>
   (release_build E c outputDir (if prefix = [] then app_Name c else prefix) (if targets = [] then [gocmd_BuildTarget E (runtime_GOOS E) (runtime_GOARCH E)] else targets) [] = (Inr releasePath, ds, tr) \<longrightarrow>
      fst (BuildRelease E c outputDir prefix targets) =
        (releasePath, checksum_Sum E tr releasePath (filepath_Join E releasePath checksumTxt)) \<and>
      snd (BuildRelease E c outputDir prefix targets) =
        tr @ EvChecksumSum releasePath (filepath_Join E releasePath checksumTxt) # map deferred_event ds \<and>
      filter is_ChecksumSum tr = [] \<and>
      releasePath = (if outputDir = [] then filepath_Join E (app_Path c) releaseDir else outputDir) \<and>
      (filepath_Join E (app_Path c) releaseDir \<noteq> [] \<longrightarrow> releasePath \<noteq> [])) \<and>
   (filter is_ChecksumSum (snd (BuildRelease E c outputDir prefix targets)) \<noteq> [] \<longrightarrow>
      (\<exists>buildFlags binary mainPath setupTrace releasePath.
         release_setup E c [] = (Inr (buildFlags, binary, mainPath), setupTrace) \<and>
         (\<forall>pre t post. (if targets = [] then [gocmd_BuildTarget E (runtime_GOOS E) (runtime_GOARCH E)] else targets) = pre @ t # post \<longrightarrow>
            (\<exists>ds tr goos goarch out.
               release_build E c outputDir (if prefix = [] then app_Name c else prefix) pre [] = (Inr releasePath, ds, tr) \<and>
               (let opts = [(gocmd_EnvGOOS E, goos), (gocmd_EnvGOARCH E, goarch)];
                   tarPath = filepath_Join E releasePath ((if prefix = [] then app_Name c else prefix) @ ''_'' @ goos @ ''_'' @ goarch @ ''.tar.gz'');
                   u1 = tr @ [EvParseTarget t];
                   u2 = u1 @ [EvMkdirTemp (Some out)];
                   u3 = u2 @ [EvBuildPath out binary mainPath buildFlags opts];
                   u4 = u3 @ [EvTar out];
                   u5 = u4 @ [EvCreate tarPath];
                   u6 = u5 @ [EvCopy tarPath out]
                in
                   gocmd_ParseTarget E t = Inr (goos, goarch) \<and>
                   os_MkdirTemp E u1 = Inr out \<and>
                   gocmd_BuildPath E u2 out binary mainPath buildFlags opts = None \<and>
                   archive_Tar E u3 out = None \<and>
                   os_Create E u4 tarPath = None \<and>
                   io_Copy E u5 tarPath out = None)))))"
proof -
  have pre: "(let p = app_Path c;
        t1 = [EvSetup];
        t2 = t1 @ [EvConfig];
        t3 = t2 @ [EvID];
        t4 = t3 @ [EvModTidy p];
        t5 = t4 @ [EvModVerify p];
        t6 = t5 @ [EvBinary];
        t7 = t6 @ [EvConfig];
        t8 = t7 @ [EvDiscoverOneMain p];
        fails = (\<lambda>err. fst (BuildRelease E c outputDir prefix targets) = ([], Some err) \<and>
                          filter is_ChecksumSum (snd (BuildRelease E c outputDir prefix targets)) = [])
     in
        (chain_setup E [] = Some e \<longrightarrow>
           fails e) \<and>
        (chain_setup E [] = None \<longrightarrow>
           (Config E t1 = Inl e \<longrightarrow>
              fails e) \<and>
           (Config E t1 = Inr conf \<longrightarrow>
              (ID E t2 = Inl e \<longrightarrow>
                 fails e) \<and>
              (ID E t2 = Inr chainID \<longrightarrow>
                 (gocmd_ModTidy E t3 p = Some e \<longrightarrow>
                    fails e) \<and>
                 (gocmd_ModTidy E t3 p = None \<longrightarrow>
                    (gocmd_ModVerify E t4 p = Some e \<longrightarrow>
                       fails e) \<and>
                    (gocmd_ModVerify E t4 p = None \<longrightarrow>
                       (Binary E t5 = (binary, Some e) \<longrightarrow>
                          fails e) \<and>
                       (Binary E t5 = (binary, None) \<longrightarrow>
                          (Config E t6 = Inl e \<longrightarrow>
                             fails e) \<and>
                          (Config E t6 = Inr conf' \<longrightarrow>
                             (Build_Main conf' \<noteq> [] \<longrightarrow>
                                (outputDir = [] \<longrightarrow>
                                   (os_RemoveAll E t7 (filepath_Join E p releaseDir) = Some e \<longrightarrow>
                                      fails e) \<and>
                                   (os_RemoveAll E t7 (filepath_Join E p releaseDir) = None \<longrightarrow>
                                      (os_MkdirAll E (t7 @ [EvRemoveAll (filepath_Join E p releaseDir)]) (filepath_Join E p releaseDir) = Some e \<longrightarrow>
                                         fails e))) \<and>
                                (outputDir \<noteq> [] \<longrightarrow>
                                   (os_MkdirAll E t7 outputDir = Some e \<longrightarrow>
                                      fails e))) \<and>
                             (Build_Main conf' = [] \<longrightarrow>
                                (goanalysis_DiscoverOneMain E t7 p = (mainPath, Some ErrMultipleMainPackagesFound) \<longrightarrow>
                                   fails (Wrap ''specify the path to your chain's main package in your config.yml>build.main'' ErrMultipleMainPackagesFound)) \<and>
                                (goanalysis_DiscoverOneMain E t7 p = (mainPath, Some e) \<and> e \<noteq> ErrMultipleMainPackagesFound \<longrightarrow>
                                   fails e) \<and>
                                (goanalysis_DiscoverOneMain E t7 p = (mainPath, None) \<longrightarrow>
                                   (outputDir = [] \<longrightarrow>
                                      (os_RemoveAll E t8 (filepath_Join E p releaseDir) = Some e \<longrightarrow>
                                         fails e) \<and>
                                      (os_RemoveAll E t8 (filepath_Join E p releaseDir) = None \<longrightarrow>
                                         (os_MkdirAll E (t8 @ [EvRemoveAll (filepath_Join E p releaseDir)]) (filepath_Join E p releaseDir) = Some e \<longrightarrow>
                                            fails e))) \<and>
                                   (outputDir \<noteq> [] \<longrightarrow>
                                      (os_MkdirAll E t8 outputDir = Some e \<longrightarrow>
                                         fails e))))))))))))"
    by (simp add: Let_def BuildRelease_def release_build_def release_setup_def release_dir_def
          preBuild_def discoverMain_def call_def)
  have inner: "(let opts = [(gocmd_EnvGOOS E, goos), (gocmd_EnvGOARCH E, goarch)];
        tarPath = filepath_Join E releasePath (prefix' @ ''_'' @ goos @ ''_'' @ goarch @ ''.tar.gz'');
        u1 = tr @ [EvParseTarget t];
        u2 = u1 @ [EvMkdirTemp (Some out)];
        u3 = u2 @ [EvBuildPath out binary mainPath buildFlags opts];
        u4 = u3 @ [EvTar out];
        u5 = u4 @ [EvCreate tarPath];
        fails = (\<lambda>err. fst (BuildRelease E c outputDir prefix targets) = ([], Some err) \<and>
                          filter is_ChecksumSum (snd (BuildRelease E c outputDir prefix targets)) = [])
     in
        (gocmd_ParseTarget E t = Inl e \<longrightarrow>
           fails e) \<and>
        (gocmd_ParseTarget E t = Inr (goos, goarch) \<longrightarrow>
           (os_MkdirTemp E u1 = Inl e \<longrightarrow>
              fails e) \<and>
           (os_MkdirTemp E u1 = Inr out \<longrightarrow>
              (gocmd_BuildPath E u2 out binary mainPath buildFlags opts = Some e \<longrightarrow>
                 fails e) \<and>
              (gocmd_BuildPath E u2 out binary mainPath buildFlags opts = None \<longrightarrow>
                 (archive_Tar E u3 out = Some e \<longrightarrow>
                    fails e) \<and>
                 (archive_Tar E u3 out = None \<longrightarrow>
                    (os_Create E u4 tarPath = Some e \<longrightarrow>
                       fails e) \<and>
                    (os_Create E u4 tarPath = None \<longrightarrow>
                       (io_Copy E u5 tarPath out = Some e \<longrightarrow>
                          fails e)))))))"
    if px: "prefix' = (if prefix = [] then app_Name c else prefix)"
      and s: "release_setup E c [] = (Inr (buildFlags, binary, mainPath), setupTrace)"
      and b: "release_build E c outputDir prefix' pre [] = (Inr releasePath, ds, tr)"
      and ts: "(if targets = [] then [gocmd_BuildTarget E (runtime_GOOS E) (runtime_GOARCH E)] else targets) = pre @ t # post"
    for prefix'
    by (simp add: Let_def BuildRelease_target_error [OF px s b ts] release_target_def call_def
          tarName_def not_checksum_deferred checksum_deferred
          release_build_frame [OF b, THEN conjunct1])
  then have tgt: "(let prefix' = (if prefix = [] then app_Name c else prefix)
     in
        (release_setup E c [] = (Inr (buildFlags, binary, mainPath), setupTrace) \<and>
        release_build E c outputDir prefix' pre [] = (Inr releasePath, ds, tr) \<and>
        (if targets = [] then [gocmd_BuildTarget E (runtime_GOOS E) (runtime_GOARCH E)] else targets) = pre @ t # post \<longrightarrow>
           (let opts = [(gocmd_EnvGOOS E, goos), (gocmd_EnvGOARCH E, goarch)];
               tarPath = filepath_Join E releasePath (prefix' @ ''_'' @ goos @ ''_'' @ goarch @ ''.tar.gz'');
               u1 = tr @ [EvParseTarget t];
               u2 = u1 @ [EvMkdirTemp (Some out)];
               u3 = u2 @ [EvBuildPath out binary mainPath buildFlags opts];
               u4 = u3 @ [EvTar out];
               u5 = u4 @ [EvCreate tarPath];
               fails = (\<lambda>err. fst (BuildRelease E c outputDir prefix targets) = ([], Some err) \<and>
                                 filter is_ChecksumSum (snd (BuildRelease E c outputDir prefix targets)) = [])
            in
               (gocmd_ParseTarget E t = Inl e \<longrightarrow>
                  fails e) \<and>
               (gocmd_ParseTarget E t = Inr (goos, goarch) \<longrightarrow>
                  (os_MkdirTemp E u1 = Inl e \<longrightarrow>
                     fails e) \<and>
                  (os_MkdirTemp E u1 = Inr out \<longrightarrow>
                     (gocmd_BuildPath E u2 out binary mainPath buildFlags opts = Some e \<longrightarrow>
                        fails e) \<and>
                     (gocmd_BuildPath E u2 out binary mainPath buildFlags opts = None \<longrightarrow>
                        (archive_Tar E u3 out = Some e \<longrightarrow>
                           fails e) \<and>
                        (archive_Tar E u3 out = None \<longrightarrow>
                           (os_Create E u4 tarPath = Some e \<longrightarrow>
                              fails e) \<and>
                           (os_Create E u4 tarPath = None \<longrightarrow>
                              (io_Copy E u5 tarPath out = Some e \<longrightarrow>
                                 fails e)))))))))"
    unfolding Let_def by blast
  have chk: "(release_build E c outputDir (if prefix = [] then app_Name c else prefix) (if targets = [] then [gocmd_BuildTarget E (runtime_GOOS E) (runtime_GOARCH E)] else targets) [] = (Inr releasePath, ds, tr) \<longrightarrow>
       fst (BuildRelease E c outputDir prefix targets) =
         (releasePath, checksum_Sum E tr releasePath (filepath_Join E releasePath checksumTxt)) \<and>
       snd (BuildRelease E c outputDir prefix targets) =
         tr @ EvChecksumSum releasePath (filepath_Join E releasePath checksumTxt) # map deferred_event ds \<and>
       filter is_ChecksumSum tr = [] \<and>
       releasePath = (if outputDir = [] then filepath_Join E (app_Path c) releaseDir else outputDir) \<and>
       (filepath_Join E (app_Path c) releaseDir \<noteq> [] \<longrightarrow> releasePath \<noteq> []))"
  proof
    assume h: "release_build E c outputDir (if prefix = [] then app_Name c else prefix)
                 (if targets = [] then [gocmd_BuildTarget E (runtime_GOOS E) (runtime_GOARCH E)]
                  else targets) [] = (Inr releasePath, ds, tr)"
    then have h': "release_build E c outputDir (default_prefix c prefix) (default_targets E targets) [] =
                 (Inr releasePath, ds, tr)"
      by (simp add: default_prefix_if default_targets_if)
    from h' have r: "fst (BuildRelease E c outputDir prefix targets) =
        (releasePath, checksum_Sum E tr releasePath (filepath_Join E releasePath checksumTxt))"
      by (simp add: BuildRelease_def call_def Let_def)
    from BuildRelease_trace [OF h'] have t: "snd (BuildRelease E c outputDir prefix targets) =
        tr @ EvChecksumSum releasePath (filepath_Join E releasePath checksumTxt) #
        map deferred_event ds"
      by simp
    from release_build_frame [OF h'] have k: "filter is_ChecksumSum tr = []" by simp
    from release_build_creates [OF h'] have
      p: "releasePath = (if outputDir = [] then filepath_Join E (app_Path c) releaseDir else outputDir)"
      by simp
    from p have q: "filepath_Join E (app_Path c) releaseDir \<noteq> [] \<longrightarrow> releasePath \<noteq> []"
      by auto
    from r t k p q
    show "fst (BuildRelease E c outputDir prefix targets) =
            (releasePath, checksum_Sum E tr releasePath (filepath_Join E releasePath checksumTxt)) \<and>
          snd (BuildRelease E c outputDir prefix targets) =
            tr @ EvChecksumSum releasePath (filepath_Join E releasePath checksumTxt) # map deferred_event ds \<and>
          filter is_ChecksumSum tr = [] \<and>
          releasePath = (if outputDir = [] then filepath_Join E (app_Path c) releaseDir else outputDir) \<and>
          (filepath_Join E (app_Path c) releaseDir \<noteq> [] \<longrightarrow> releasePath \<noteq> [])"
      by blast
  qed
  have succ: "(filter is_ChecksumSum (snd (BuildRelease E c outputDir prefix targets)) \<noteq> [] \<longrightarrow>
       (\<exists>buildFlags binary mainPath setupTrace releasePath.
          release_setup E c [] = (Inr (buildFlags, binary, mainPath), setupTrace) \<and>
          (\<forall>pre t post. (if targets = [] then [gocmd_BuildTarget E (runtime_GOOS E) (runtime_GOARCH E)] else targets) = pre @ t # post \<longrightarrow>
             (\<exists>ds tr goos goarch out.
                release_build E c outputDir (if prefix = [] then app_Name c else prefix) pre [] = (Inr releasePath, ds, tr) \<and>
                (let opts = [(gocmd_EnvGOOS E, goos), (gocmd_EnvGOARCH E, goarch)];
                    tarPath = filepath_Join E releasePath ((if prefix = [] then app_Name c else prefix) @ ''_'' @ goos @ ''_'' @ goarch @ ''.tar.gz'');
                    u1 = tr @ [EvParseTarget t];
                    u2 = u1 @ [EvMkdirTemp (Some out)];
                    u3 = u2 @ [EvBuildPath out binary mainPath buildFlags opts];
                    u4 = u3 @ [EvTar out];
                    u5 = u4 @ [EvCreate tarPath];
                    u6 = u5 @ [EvCopy tarPath out]
                 in
                    gocmd_ParseTarget E t = Inr (goos, goarch) \<and>
                    os_MkdirTemp E u1 = Inr out \<and>
                    gocmd_BuildPath E u2 out binary mainPath buildFlags opts = None \<and>
                    archive_Tar E u3 out = None \<and>
                    os_Create E u4 tarPath = None \<and>
                    io_Copy E u5 tarPath out = None)))))"
  proof
    assume att: "filter is_ChecksumSum (snd (BuildRelease E c outputDir prefix targets)) \<noteq> []"
    from checksum_attempted [OF att] obtain releasePath ds tr where
      rb: "release_build E c outputDir (if prefix = [] then app_Name c else prefix)
             (if targets = [] then [gocmd_BuildTarget E (runtime_GOOS E) (runtime_GOARCH E)]
              else targets) [] = (Inr releasePath, ds, tr)"
      by (auto simp: default_prefix_if default_targets_if)
    then obtain buildFlags binary mainPath setupTrace where
      s: "release_setup E c [] = (Inr (buildFlags, binary, mainPath), setupTrace)"
      by (auto simp: release_build_def split: prod.splits sum.splits option.splits)
    have "(\<exists>ds tr goos goarch out.
             release_build E c outputDir (if prefix = [] then app_Name c else prefix) pre [] = (Inr releasePath, ds, tr) \<and>
             (let opts = [(gocmd_EnvGOOS E, goos), (gocmd_EnvGOARCH E, goarch)];
                 tarPath = filepath_Join E releasePath ((if prefix = [] then app_Name c else prefix) @ ''_'' @ goos @ ''_'' @ goarch @ ''.tar.gz'');
                 u1 = tr @ [EvParseTarget t];
                 u2 = u1 @ [EvMkdirTemp (Some out)];
                 u3 = u2 @ [EvBuildPath out binary mainPath buildFlags opts];
                 u4 = u3 @ [EvTar out];
                 u5 = u4 @ [EvCreate tarPath];
                 u6 = u5 @ [EvCopy tarPath out]
              in
                 gocmd_ParseTarget E t = Inr (goos, goarch) \<and>
                 os_MkdirTemp E u1 = Inr out \<and>
                 gocmd_BuildPath E u2 out binary mainPath buildFlags opts = None \<and>
                 archive_Tar E u3 out = None \<and>
                 os_Create E u4 tarPath = None \<and>
                 io_Copy E u5 tarPath out = None))"
      if sp: "(if targets = [] then [gocmd_BuildTarget E (runtime_GOOS E) (runtime_GOARCH E)]
               else targets) = pre @ t # post"
      for pre t post
    proof -
      from release_build_split [OF s rb [unfolded sp]] obtain ds0 tr0 ds1 trace1 where
        b: "release_build E c outputDir (if prefix = [] then app_Name c else prefix) pre [] =
              (Inr releasePath, ds0, tr0)" and
        rt: "release_target E binary mainPath buildFlags releasePath
               (if prefix = [] then app_Name c else prefix) t ds0 tr0 = (None, ds1, trace1)"
        by blast
      from release_target_answers [OF rt] b show ?thesis
        unfolding Let_def by blast
    qed
    with s show "(\<exists>buildFlags binary mainPath setupTrace releasePath.
             release_setup E c [] = (Inr (buildFlags, binary, mainPath), setupTrace) \<and>
             (\<forall>pre t post. (if targets = [] then [gocmd_BuildTarget E (runtime_GOOS E) (runtime_GOARCH E)] else targets) = pre @ t # post \<longrightarrow>
                (\<exists>ds tr goos goarch out.
                   release_build E c outputDir (if prefix = [] then app_Name c else prefix) pre [] = (Inr releasePath, ds, tr) \<and>
                   (let opts = [(gocmd_EnvGOOS E, goos), (gocmd_EnvGOARCH E, goarch)];
                       tarPath = filepath_Join E releasePath ((if prefix = [] then app_Name c else prefix) @ ''_'' @ goos @ ''_'' @ goarch @ ''.tar.gz'');
                       u1 = tr @ [EvParseTarget t];
                       u2 = u1 @ [EvMkdirTemp (Some out)];
                       u3 = u2 @ [EvBuildPath out binary mainPath buildFlags opts];
                       u4 = u3 @ [EvTar out];
                       u5 = u4 @ [EvCreate tarPath];
                       u6 = u5 @ [EvCopy tarPath out]
                    in
                       gocmd_ParseTarget E t = Inr (goos, goarch) \<and>
                       os_MkdirTemp E u1 = Inr out \<and>
                       gocmd_BuildPath E u2 out binary mainPath buildFlags opts = None \<and>
                       archive_Tar E u3 out = None \<and>
                       os_Create E u4 tarPath = None \<and>
                       io_Copy E u5 tarPath out = None))))"
      by blast
  qed
  from pre tgt chk succ show ?thesis by blast
qed

theorem BuildRelease_checksum_witness:
  "gocmd_BuildPath compiler_fails
     [EvSetup, EvConfig, EvID, EvModTidy ''/src/mars'', EvModVerify ''/src/mars'', EvBinary,
      EvConfig, EvDiscoverOneMain ''/src/mars'', EvRemoveAll ''/src/mars/release'',
      EvMkdirAll ''/src/mars/release'', EvParseTarget ''linux:amd64'', EvMkdirTemp (Some ''/tmp/'')]
     ''/tmp/'' ''marsd'' ''/src/mars/cmd/marsd'' mars_flags
     [(''GOOS'', ''linux''), (''GOARCH'', ''amd64'')] = Some (ExitError ''exit status 2'') \<and>
   fst (BuildRelease compiler_fails mars [] [] []) = ([], Some (ExitError ''exit status 2'')) \<and>
   filter is_ChecksumSum (snd (BuildRelease compiler_fails mars [] [] [])) = [] \<and>
   fst (release_build checksum_fails mars [] ''mars'' [''linux:amd64''] []) =
     Inr ''/src/mars/release'' \<and>
   fst (BuildRelease checksum_fails mars [] [] []) =
     (''/src/mars/release'', Some (OtherError ''checksum failed''))"
proof -
  have g: "\<And>h out binary path flags opts.
       gocmd_BuildPath compiler_fails h out binary path flags opts = Some (ExitError ''exit status 2'')"
    "gocmd_ParseTarget compiler_fails ''linux:amd64'' = Inr (''linux'', ''amd64'')"
    "gocmd_EnvGOOS compiler_fails = ''GOOS''" "gocmd_EnvGOARCH compiler_fails = ''GOARCH''"
    "gocmd_BuildTarget compiler_fails (runtime_GOOS compiler_fails) (runtime_GOARCH compiler_fails) =
       ''linux:amd64''"
    "app_Name mars = ''mars''"
    by (simp_all add: compiler_fails_def host_def mars_def ParseTarget_spec_def BuildTarget_spec_def)
  have m: "os_MkdirTemp compiler_fails
     [EvSetup, EvConfig, EvID, EvModTidy ''/src/mars'', EvModVerify ''/src/mars'', EvBinary,
      EvConfig, EvDiscoverOneMain ''/src/mars'', EvRemoveAll ''/src/mars/release'',
      EvMkdirAll ''/src/mars/release'', EvParseTarget ''linux:amd64''] = Inr ''/tmp/''"
    by code_simp
  have s: "release_setup compiler_fails mars [] =
     (Inr (mars_flags, ''marsd'', ''/src/mars/cmd/marsd''),
      [EvSetup, EvConfig, EvID, EvModTidy ''/src/mars'', EvModVerify ''/src/mars'', EvBinary,
       EvConfig, EvDiscoverOneMain ''/src/mars''])"
    by code_simp
  have b: "release_build compiler_fails mars [] ''mars'' [] [] =
     (Inr ''/src/mars/release'', [],
      [EvSetup, EvConfig, EvID, EvModTidy ''/src/mars'', EvModVerify ''/src/mars'', EvBinary,
       EvConfig, EvDiscoverOneMain ''/src/mars'', EvRemoveAll ''/src/mars/release'',
       EvMkdirAll ''/src/mars/release''])"
    by code_simp
  have a: "fst (BuildRelease compiler_fails mars [] [] []) = ([], Some (ExitError ''exit status 2'')) \<and>
     filter is_ChecksumSum (snd (BuildRelease compiler_fails mars [] [] [])) = []"
    using BuildRelease_checksum
      [where E = compiler_fails and c = mars and outputDir = "[]" and prefix = "[]"
         and targets = "[]" and e = "ExitError ''exit status 2''"
         and buildFlags = mars_flags and binary = "''marsd''"
         and mainPath = "''/src/mars/cmd/marsd''"
         and setupTrace = "[EvSetup, EvConfig, EvID, EvModTidy ''/src/mars'',
                            EvModVerify ''/src/mars'', EvBinary, EvConfig,
                            EvDiscoverOneMain ''/src/mars'']"
         and pre = "[]" and t = "''linux:amd64''" and post = "[]"
         and releasePath = "''/src/mars/release''" and ds = "[]"
         and tr = "[EvSetup, EvConfig, EvID, EvModTidy ''/src/mars'', EvModVerify ''/src/mars'',
                    EvBinary, EvConfig, EvDiscoverOneMain ''/src/mars'',
                    EvRemoveAll ''/src/mars/release'', EvMkdirAll ''/src/mars/release'']"
         and goos = "''linux''" and goarch = "''amd64''" and out = "''/tmp/''",
       THEN conjunct2, THEN conjunct1]
      s b
    by (simp add: Let_def g m)
  have h: "fst (release_build checksum_fails mars [] ''mars'' [''linux:amd64''] []) =
     Inr ''/src/mars/release''"
    by code_simp
  then obtain ds2 tr2 where
    h': "release_build checksum_fails mars [] ''mars'' [''linux:amd64''] [] =
       (Inr ''/src/mars/release'', ds2, tr2)"
    by (cases "release_build checksum_fails mars [] ''mars'' [''linux:amd64''] []") auto
  have n: "gocmd_BuildTarget checksum_fails (runtime_GOOS checksum_fails) (runtime_GOARCH checksum_fails) =
       ''linux:amd64''"
    "\<And>h d p. checksum_Sum checksum_fails h d p = Some (OtherError ''checksum failed'')"
    by (simp_all add: checksum_fails_def host_def BuildTarget_spec_def)
  have c: "fst (BuildRelease checksum_fails mars [] [] []) =
     (''/src/mars/release'', Some (OtherError ''checksum failed''))"
    using BuildRelease_checksum
      [where E = checksum_fails and c = mars and outputDir = "[]" and prefix = "[]"
         and targets = "[]" and releasePath = "''/src/mars/release''" and ds = ds2 and tr = tr2,
       THEN conjunct2, THEN conjunct2, THEN conjunct1]
      h'
    by (simp add: n g)
  from a c g h show ?thesis by simp
qed

end
